theory Spec2Isabelle
  imports Main "HOL-Library.Sublist"
begin

section \<open>JavaScript values\<close>

text \<open>
  The news service moves untyped JSON around: what \<^verbatim>\<open>JSON.parse\<close> returns is cast to
  \<^verbatim>\<open>NewsResponse\<close> without any check, stored, read back, spread and returned. The model
  therefore works on JavaScript values, not on the TypeScript interfaces. Numbers are
  integers: the only arithmetic of the program is on epoch milliseconds, which
  \<^verbatim>\<open>Date.now()\<close> returns as integers; \<open>None\<close> stands for \<^verbatim>\<open>NaN\<close> where a number is
  expected. Characters are 8-bit.
\<close>

datatype jsval =
    JUndefined
  | JNull
  | JBool bool
  | JNum int
  | JStr string
  | JArr "jsval list"
  | JObj "(string \<times> jsval) list"

datatype exn = Error string | TypeError | SyntaxError

text \<open>\<^verbatim>\<open>if (v)\<close>, \<^verbatim>\<open>v && ...\<close>, \<^verbatim>\<open>v || ...\<close>: the falsy values are undefined, null, false, 0
  and the empty string.\<close>

fun truthy :: "jsval \<Rightarrow> bool" where
  "truthy JUndefined = False"
| "truthy JNull = False"
| "truthy (JBool b) = b"
| "truthy (JNum n) = (n \<noteq> 0)"
| "truthy (JStr s) = (s \<noteq> [])"
| "truthy (JArr xs) = True"
| "truthy (JObj fs) = True"

fun nullish :: "jsval \<Rightarrow> bool" where
  "nullish JUndefined = True"
| "nullish JNull = True"
| "nullish v = False"

text \<open>Decimal numerals, for array index keys and for \<^verbatim>\<open>String(n)\<close>.\<close>

definition digit_char :: "nat \<Rightarrow> char" where
  "digit_char d = ''0123456789'' ! (d mod 10)"

function decimal :: "nat \<Rightarrow> string" where
  "decimal n = (if n < 10 then [digit_char n] else decimal (n div 10) @ [digit_char n])"
  by pat_completeness auto
termination
  by (relation "measure id") auto

declare decimal.simps [simp del]

definition int_string :: "int \<Rightarrow> string" where
  "int_string i = (if i < 0 then CHR ''-'' # decimal (nat (- i)) else decimal (nat i))"

definition digit_value :: "char \<Rightarrow> nat option" where
  "digit_value c =
     (let n = (of_char c :: nat) in if 48 \<le> n \<and> n \<le> 57 then Some (n - 48) else None)"

fun digits_value :: "nat \<Rightarrow> string \<Rightarrow> nat option" where
  "digits_value acc [] = Some acc"
| "digits_value acc (c # cs) =
     (case digit_value c of None \<Rightarrow> None | Some d \<Rightarrow> digits_value (10 * acc + d) cs)"

text \<open>A property key is an array index when it is a canonical numeral: \<^verbatim>\<open>"0"\<close>, or digits
  without a leading zero.\<close>

definition index_of_key :: "string \<Rightarrow> nat option" where
  "index_of_key k =
     (case k of
        [] \<Rightarrow> None
      | c # cs \<Rightarrow> if c = CHR ''0'' \<and> cs \<noteq> [] then None else digits_value 0 k)"

definition lookup :: "(string \<times> jsval) list \<Rightarrow> string \<Rightarrow> jsval" where
  "lookup fs k = (case map_of fs k of None \<Rightarrow> JUndefined | Some v \<Rightarrow> v)"

text \<open>
  \<^verbatim>\<open>v.k\<close> for a value that is neither undefined nor null. Own properties only: the
  program reads the keys data, sources, timestamp, lang, status, generated_at, highlights,
  choices, message, content, candidates, groundingMetadata, groundingChunks, web, uri,
  title, length and the index 0, none of which names a member of a built-in prototype
  except \<^verbatim>\<open>length\<close>, which arrays and strings own.
\<close>

fun js_prop :: "jsval \<Rightarrow> string \<Rightarrow> jsval" where
  "js_prop (JObj fs) k = lookup fs k"
| "js_prop (JArr xs) k =
     (if k = ''length'' then JNum (int (length xs))
      else case index_of_key k of
             None \<Rightarrow> JUndefined
           | Some i \<Rightarrow> if i < length xs then xs ! i else JUndefined)"
| "js_prop (JStr s) k =
     (if k = ''length'' then JNum (int (length s))
      else case index_of_key k of
             None \<Rightarrow> JUndefined
           | Some i \<Rightarrow> if i < length s then JStr [s ! i] else JUndefined)"
| "js_prop v k = JUndefined"

text \<open>\<^verbatim>\<open>v.k\<close>: a TypeError on undefined and null.\<close>

definition js_get :: "jsval \<Rightarrow> string \<Rightarrow> exn + jsval" where
  "js_get v k = (if nullish v then Inl TypeError else Inr (js_prop v k))"

text \<open>\<^verbatim>\<open>v?.k\<close>: undefined on undefined and null.\<close>

definition js_opt :: "jsval \<Rightarrow> string \<Rightarrow> jsval" where
  "js_opt v k = (if nullish v then JUndefined else js_prop v k)"

text \<open>The own enumerable properties, which the spread \<^verbatim>\<open>{...v}\<close> copies: the fields of
  an object, the elements of an array and the characters of a string under their
  indices, nothing for the other values.\<close>

fun own_enumerable :: "jsval \<Rightarrow> (string \<times> jsval) list" where
  "own_enumerable (JObj fs) = fs"
| "own_enumerable (JArr xs) = zip (map decimal [0..<length xs]) xs"
| "own_enumerable (JStr s) = zip (map decimal [0..<length s]) (map (\<lambda>c. JStr [c]) s)"
| "own_enumerable v = []"

text \<open>\<^verbatim>\<open>o.k = v\<close> on an object literal: an existing key keeps its place, a new one is
  added last.\<close>

fun obj_set :: "(string \<times> jsval) list \<Rightarrow> string \<Rightarrow> jsval \<Rightarrow> (string \<times> jsval) list" where
  "obj_set [] k v = [(k, v)]"
| "obj_set ((k', v') # fs) k v =
     (if k' = k then (k, v) # fs else (k', v') # obj_set fs k v)"

text \<open>
  \<^verbatim>\<open>String(v)\<close>, which \<^verbatim>\<open>JSON.parse\<close> applies to an argument that is not a string. An
  array is the join of its elements, undefined and null elements being empty. A plain
  object is \<^verbatim>\<open>[object Object]\<close>, through the \<^verbatim>\<open>toString\<close> of its prototype; an own field of
  that name hides the method, and as no parsed value is a function the conversion then
  finds nothing to call and throws a TypeError.
\<close>

fun intercalate :: "string \<Rightarrow> string list \<Rightarrow> string" where
  "intercalate sep [] = []"
| "intercalate sep [x] = x"
| "intercalate sep (x # y # ys) = x @ sep @ intercalate sep (y # ys)"

fun sequence :: "(exn + 'a) list \<Rightarrow> exn + 'a list" where
  "sequence [] = Inr []"
| "sequence (x # xs) =
     (case x of
        Inl e \<Rightarrow> Inl e
      | Inr v \<Rightarrow> (case sequence xs of Inl e \<Rightarrow> Inl e | Inr vs \<Rightarrow> Inr (v # vs)))"

fun to_string :: "jsval \<Rightarrow> exn + string" where
  "to_string JUndefined = Inr ''undefined''"
| "to_string JNull = Inr ''null''"
| "to_string (JBool b) = Inr (if b then ''true'' else ''false'')"
| "to_string (JNum n) = Inr (int_string n)"
| "to_string (JStr s) = Inr s"
| "to_string (JArr xs) =
     (case sequence (map (\<lambda>x. if nullish x then Inr [] else to_string x) xs) of
        Inl e \<Rightarrow> Inl e
      | Inr ss \<Rightarrow> Inr (intercalate '','' ss))"
| "to_string (JObj fs) =
     (case map_of fs ''toString'' of
        None \<Rightarrow> Inr ''[object Object]''
      | Some f \<Rightarrow> Inl TypeError)"

text \<open>\<^verbatim>\<open>Number(v)\<close>, which the subtraction \<^verbatim>\<open>Date.now() - timestamp\<close> and the comparison
  \<^verbatim>\<open>sources.length > 0\<close> apply to an operand. The conversion of a string is the
  platform's (\<open>s2n\<close>); an array converts through its string; a plain object is \<^verbatim>\<open>NaN\<close>,
  or throws as \<^verbatim>\<open>String\<close> does.\<close>

fun to_number :: "(string \<Rightarrow> int option) \<Rightarrow> jsval \<Rightarrow> exn + int option" where
  "to_number s2n JUndefined = Inr None"
| "to_number s2n JNull = Inr (Some 0)"
| "to_number s2n (JBool b) = Inr (Some (if b then 1 else 0))"
| "to_number s2n (JNum n) = Inr (Some n)"
| "to_number s2n (JStr s) = Inr (s2n s)"
| "to_number s2n (JArr xs) =
     (case to_string (JArr xs) of Inl e \<Rightarrow> Inl e | Inr s \<Rightarrow> Inr (s2n s))"
| "to_number s2n (JObj fs) =
     (case map_of fs ''toString'' of None \<Rightarrow> Inr None | Some f \<Rightarrow> Inl TypeError)"

section \<open>Types of the application (types.ts)\<close>

datatype Language = en | bn

definition lang_str :: "Language \<Rightarrow> string" where
  "lang_str l = (case l of en \<Rightarrow> ''en'' | bn \<Rightarrow> ''bn'')"

datatype Category =
  world | economy | tech | security | climate | politics | bangladesh | other

record NewsHighlight =
  headline :: string
  summary :: string
  url :: "string option"
  category :: Category
  timestamp :: string

text \<open>What \<^verbatim>\<open>fetchNewsUpdates\<close> resolves to: \<^verbatim>\<open>{ data, sources }\<close>.\<close>

record payload =
  data :: jsval
  sources :: jsval

section \<open>The platform and the providers\<close>

text \<open>
  The prompt is a template string; its variable parts are the current time, the target
  language and the reduced context (headline and category of each previous highlight).
\<close>

record prompt =
  current_time :: string
  target_language :: Language
  previous_context :: "(string \<times> Category) list"

text \<open>The part of the SDK's response that the service reads: \<^verbatim>\<open>response.text\<close> (possibly
  undefined) and \<^verbatim>\<open>response.candidates\<close>.\<close>

record gemini_response =
  response_text :: "string option"
  candidates :: jsval

text \<open>The part of the HTTP response that \<^verbatim>\<open>fetchOpenAIFallback\<close> reads.\<close>

record http_response =
  ok :: bool
  status :: nat
  statusText :: string
  body :: string

text \<open>
  Everything the service takes from outside: the two credentials, the built-ins
  \<^verbatim>\<open>JSON.parse\<close> (\<open>None\<close> when it throws), \<^verbatim>\<open>JSON.stringify\<close> and the string-to-number
  conversion, the clock (\<^verbatim>\<open>Date.now()\<close> at the freshness check and at the cache write,
  \<^verbatim>\<open>new Date().toISOString()\<close> in the prompt and when the module is loaded), and the two
  network calls, which either throw or answer. \<^verbatim>\<open>localStorage\<close> is a reliable store of
  one slot (the key \<^verbatim>\<open>chornex_news_cache_v3\<close>): its content is passed in and returned.
\<close>

record env =
  API_KEY :: "string option"
  OPENAI_API_KEY :: "string option"
  JSON_parse :: "string \<Rightarrow> jsval option"
  JSON_stringify :: "jsval \<Rightarrow> string"
  StringToNumber :: "string \<Rightarrow> int option"
  now_at_check :: int
  now_at_store :: int
  iso_now :: string
  iso_module_load :: string
  generateContent :: "prompt \<Rightarrow> exn + gemini_response"
  http_post :: "string \<Rightarrow> prompt \<Rightarrow> exn + http_response"

text \<open>\<^verbatim>\<open>!process.env.API_KEY\<close> holds for an unset and for an empty variable.\<close>

definition configured :: "string option \<Rightarrow> bool" where
  "configured k = (case k of None \<Rightarrow> False | Some s \<Rightarrow> s \<noteq> [])"

datatype event =
    ConsoleLog string
  | ConsoleWarn string
  | ConsoleError string
  | CallPrimary prompt
  | CallSecondary prompt

text \<open>What one call does: the value it resolves to or the exception it rejects with,
  the content of the cache slot afterwards, and the console lines and network calls
  in order (of a console call, the first argument).\<close>

record outcome =
  returned :: "exn + payload"
  store :: "string option"
  events :: "event list"

section \<open>The news service with the configuration check (unnamed/part\_001)\<close>

definition CACHE_DURATION_MS :: int where
  "CACHE_DURATION_MS = 15 * 60 * 1000"

definition highlight_obj :: "string \<Rightarrow> string \<Rightarrow> string \<Rightarrow> string \<Rightarrow> string \<Rightarrow> jsval" where
  "highlight_obj h s c t u =
     JObj [(''headline'', JStr h), (''summary'', JStr s), (''category'', JStr c),
           (''timestamp'', JStr t), (''url'', JStr u)]"

definition fallback_highlights :: "jsval list" where
  "fallback_highlights =
     [highlight_obj ''System Maintenance: Live Feed Paused''
        ''The neural news engine is currently under high load or maintenance. We are serving an archival snapshot while we restore real-time connectivity.''
        ''tech'' ''System Message'' ''#'',
      highlight_obj ''Global Markets Review''
        ''Major indices show resilience amidst shifting economic policies. Tech and energy sectors lead the volatility as investors await quarterly reports.''
        ''economy'' ''Archived'' ''#'',
      highlight_obj ''International Cooperation on Climate''
        ''New frameworks for carbon reduction are being discussed by G20 nations, aiming for significant milestones by 2030.''
        ''climate'' ''Archived'' ''#'',
      highlight_obj ''Development Update: Bangladesh''
        ''Infrastructure projects in major cities continue to progress, with new transport initiatives expected to ease congestion significantly.''
        ''bangladesh'' ''Archived'' ''#'']"

text \<open>\<^verbatim>\<open>FALLBACK_DATA\<close> is built once, when the module is loaded; its \<^verbatim>\<open>generated_at\<close> is
  the time of that moment.\<close>

definition FALLBACK_DATA :: "env \<Rightarrow> jsval" where
  "FALLBACK_DATA E =
     JObj [(''generated_at'', JStr (iso_module_load E)),
           (''language'', JStr ''en''),
           (''status'', JStr ''QUOTA_EXCEEDED''),
           (''highlights'', JArr fallback_highlights)]"

definition config_highlight :: jsval where
  "config_highlight =
     JObj [(''headline'', JStr ''Configuration Required''),
           (''summary'', JStr ''The News Engine API Key is missing. Please configure the API_KEY environment variable in your deployment settings.''),
           (''category'', JStr ''security''),
           (''timestamp'', JStr ''Setup Error''),
           (''url'', JStr ''#'')]"

text \<open>\<^verbatim>\<open>const configErrorData = { ...FALLBACK_DATA }; configErrorData.highlights = [...]\<close>\<close>

definition configErrorData :: "env \<Rightarrow> jsval" where
  "configErrorData E =
     JObj (obj_set (own_enumerable (FALLBACK_DATA E)) ''highlights'' (JArr [config_highlight]))"

subsection \<open>The freshness check (lines 97--111)\<close>

text \<open>The body of the first \<^verbatim>\<open>try\<close>: \<^verbatim>\<open>JSON.parse\<close> throws on text that is not JSON,
  the destructuring throws on \<^verbatim>\<open>null\<close>, the subtraction throws on a timestamp that
  cannot be converted; a missing field is \<^verbatim>\<open>undefined\<close>, and the comparison with \<^verbatim>\<open>NaN\<close>
  is false.\<close>

definition read_fresh :: "env \<Rightarrow> Language \<Rightarrow> string \<Rightarrow> exn + payload option" where
  "read_fresh E language cached =
     (case JSON_parse E cached of
        None \<Rightarrow> Inl SyntaxError
      | Some v \<Rightarrow>
          if nullish v then Inl TypeError
          else
            (case to_number (StringToNumber E) (js_prop v ''timestamp'') of
               Inl e \<Rightarrow> Inl e
             | Inr n \<Rightarrow>
                 let isFresh =
                       (case n of
                          None \<Rightarrow> False
                        | Some t \<Rightarrow> now_at_check E - t < CACHE_DURATION_MS)
                 in if isFresh \<and> js_prop v ''lang'' = JStr (lang_str language)
                    then Inr (Some \<lparr>data = js_prop v ''data'',
                                    sources = js_prop v ''sources''\<rparr>)
                    else Inr None))"

datatype cache_step = Served payload | Missed "string option"

text \<open>\<^verbatim>\<open>if (cached)\<close> skips an absent and an empty record; the \<^verbatim>\<open>catch\<close> removes the
  record. \<open>Missed\<close> carries the content of the slot afterwards.\<close>

definition check_cache :: "env \<Rightarrow> Language \<Rightarrow> string option \<Rightarrow> cache_step" where
  "check_cache E language storage =
     (case storage of
        None \<Rightarrow> Missed None
      | Some cached \<Rightarrow>
          if cached = [] then Missed storage
          else (case read_fresh E language cached of
                  Inl e \<Rightarrow> Missed None
                | Inr (Some p) \<Rightarrow> Served p
                | Inr None \<Rightarrow> Missed storage))"

subsection \<open>The primary provider and the normalisation of its text (lines 128--190)\<close>

definition build_prompt :: "env \<Rightarrow> Language \<Rightarrow> NewsHighlight list \<Rightarrow> prompt" where
  "build_prompt E language previousHighlights =
     \<lparr>current_time = iso_now E, target_language = language,
      previous_context = map (\<lambda>h. (headline h, category h)) previousHighlights\<rparr>"

text \<open>\<^verbatim>\<open>s.replace(/pat/g, '')\<close> for a literal pattern: the matches are found from the left
  and do not overlap.\<close>

function remove_all :: "string \<Rightarrow> string \<Rightarrow> string" where
  "remove_all pat [] = []"
| "remove_all pat (c # cs) =
     (if pat \<noteq> [] \<and> take (length pat) (c # cs) = pat
      then remove_all pat (drop (length pat) (c # cs))
      else c # remove_all pat cs)"
  by pat_completeness auto
termination
  by (relation "measure (\<lambda>(pat, s). length s)") auto

text \<open>\<^verbatim>\<open>trim()\<close> removes white space and line terminators at both ends; among the 8-bit
  characters these are tab, line feed, vertical tab, form feed, carriage return, space
  and the no-break space.\<close>

definition js_space :: "char \<Rightarrow> bool" where
  "js_space c = (c \<in> set [CHR 0x09, CHR 0x0A, CHR 0x0B, CHR 0x0C, CHR 0x0D, CHR 0x20, CHR 0xA0])"

definition trim :: "string \<Rightarrow> string" where
  "trim s = rev (dropWhile js_space (rev (dropWhile js_space s)))"

definition fence_json :: string where
  "fence_json = [CHR 0x60, CHR 0x60, CHR 0x60, CHR ''j'', CHR ''s'', CHR ''o'', CHR ''n'']"

definition fence :: string where
  "fence = [CHR 0x60, CHR 0x60, CHR 0x60]"

definition clean_text :: "string \<Rightarrow> string" where
  "clean_text t = trim (remove_all fence (remove_all fence_json t))"

text \<open>Lines 165--174. The inner \<^verbatim>\<open>catch\<close> writes the raw text to the console and throws
  an error with a fixed message.\<close>

definition invalid_format :: exn where
  "invalid_format = Error ''Invalid response format from news engine.''"

definition normalize :: "env \<Rightarrow> string \<Rightarrow> exn + jsval" where
  "normalize E t =
     (case JSON_parse E (clean_text t) of
        None \<Rightarrow> Inl invalid_format
      | Some parsedData \<Rightarrow> Inr parsedData)"

text \<open>\<^verbatim>\<open>response.text || "{}"\<close>\<close>

definition text_or_default :: "gemini_response \<Rightarrow> string" where
  "text_or_default r =
     (case response_text r of None \<Rightarrow> ''{}'' | Some t \<Rightarrow> if t = [] then ''{}'' else t)"

text \<open>\<^verbatim>\<open>response.candidates?.[0]?.groundingMetadata?.groundingChunks || []\<close>\<close>

definition grounding_chunks :: "jsval \<Rightarrow> jsval" where
  "grounding_chunks cands =
     (let g = js_opt (js_opt (js_opt cands ''0'') ''groundingMetadata'') ''groundingChunks''
      in if truthy g then g else JArr [])"

text \<open>\<^verbatim>\<open>.map((chunk) => chunk.web)\<close> throws at the first chunk that is undefined or null.\<close>

fun map_web :: "jsval list \<Rightarrow> exn + jsval list" where
  "map_web [] = Inr []"
| "map_web (chunk # chunks) =
     (case js_get chunk ''web'' of
        Inl e \<Rightarrow> Inl e
      | Inr web \<Rightarrow> (case map_web chunks of Inl e \<Rightarrow> Inl e | Inr webs \<Rightarrow> Inr (web # webs)))"

text \<open>Only an array has a \<^verbatim>\<open>map\<close> method; on any other value the call is a TypeError.\<close>

definition grounding_sources :: "jsval \<Rightarrow> exn + jsval" where
  "grounding_sources cands =
     (case grounding_chunks cands of
        JArr chunks \<Rightarrow>
          (case map_web chunks of
             Inl e \<Rightarrow> Inl e
           | Inr webs \<Rightarrow>
               Inr (JArr (filter (\<lambda>web. truthy web \<and> truthy (js_prop web ''uri'')
                                          \<and> truthy (js_prop web ''title'')) webs)))
      | _ \<Rightarrow> Inl TypeError)"

text \<open>The body of the second \<^verbatim>\<open>try\<close> up to the cache write: the value it reaches or the
  exception it throws, and what it did on the way.\<close>

definition acquire_primary :: "env \<Rightarrow> prompt \<Rightarrow> (exn + payload) \<times> event list" where
  "acquire_primary E p =
     (case generateContent E p of
        Inl e \<Rightarrow> (Inl e, [CallPrimary p])
      | Inr response \<Rightarrow>
          (case normalize E (text_or_default response) of
             Inl e \<Rightarrow> (Inl e, [CallPrimary p, ConsoleError ''Failed to parse JSON''])
           | Inr parsedData \<Rightarrow>
               (case grounding_sources (candidates response) of
                  Inl e \<Rightarrow> (Inl e, [CallPrimary p])
                | Inr srcs \<Rightarrow> (Inr \<lparr>data = parsedData, sources = srcs\<rparr>, [CallPrimary p]))))"

text \<open>The record that \<^verbatim>\<open>localStorage.setItem\<close> receives, before \<^verbatim>\<open>JSON.stringify\<close>.\<close>

definition cache_record :: "payload \<Rightarrow> int \<Rightarrow> Language \<Rightarrow> jsval" where
  "cache_record p t language =
     JObj [(''data'', data p), (''sources'', sources p), (''timestamp'', JNum t),
           (''lang'', JStr (lang_str language))]"

subsection \<open>The fail-safe (lines 192--217)\<close>

definition QUOTA_EXCEEDED :: jsval where
  "QUOTA_EXCEEDED = JStr ''QUOTA_EXCEEDED''"

text \<open>\<^verbatim>\<open>{ ...data, status: 'QUOTA_EXCEEDED' }\<close>\<close>

definition quota_marked :: "jsval \<Rightarrow> jsval" where
  "quota_marked d = JObj (obj_set (own_enumerable d) ''status'' QUOTA_EXCEEDED)"

text \<open>The body of the \<^verbatim>\<open>try\<close> inside the handler:
  \<^verbatim>\<open>const { data, sources } = JSON.parse(cached)\<close> and the return of
  \<^verbatim>\<open>{ data: { ...data, status: 'QUOTA_EXCEEDED' }, sources }\<close>.\<close>

definition read_stale :: "env \<Rightarrow> string \<Rightarrow> exn + payload" where
  "read_stale E cached =
     (case JSON_parse E cached of
        None \<Rightarrow> Inl SyntaxError
      | Some v \<Rightarrow>
          if nullish v then Inl TypeError
          else Inr \<lparr>data = quota_marked (js_prop v ''data''),
                    sources = js_prop v ''sources''\<rparr>)"

definition static_fallback :: "env \<Rightarrow> payload" where
  "static_fallback E = \<lparr>data = FALLBACK_DATA E, sources = JArr []\<rparr>"

text \<open>The handler reads the slot again; a record it cannot read is ignored.\<close>

definition serve_degraded :: "env \<Rightarrow> string option \<Rightarrow> exn + payload" where
  "serve_degraded E storage =
     (case storage of
        None \<Rightarrow> Inr (static_fallback E)
      | Some cached \<Rightarrow>
          if cached = [] then Inr (static_fallback E)
          else (case read_stale E cached of
                  Inl e \<Rightarrow> Inr (static_fallback E)
                | Inr p \<Rightarrow> Inr p))"

subsection \<open>fetchNewsUpdates\<close>

definition fetchNewsUpdates ::
  "env \<Rightarrow> Language \<Rightarrow> NewsHighlight list \<Rightarrow> string option \<Rightarrow> outcome" where
  "fetchNewsUpdates E language previousHighlights storage =
     (case check_cache E language storage of
        Served p \<Rightarrow>
          \<lparr>returned = Inr p, store = storage,
           events = [ConsoleLog ''Serving fresh cache to preserve API quota'']\<rparr>
      | Missed storage1 \<Rightarrow>
          if \<not> configured (API_KEY E)
          then \<lparr>returned = Inr \<lparr>data = configErrorData E, sources = JArr []\<rparr>,
                store = storage1, events = [ConsoleWarn ''API Key is missing.'']\<rparr>
          else
            (case acquire_primary E (build_prompt E language previousHighlights) of
               (Inr p, evs) \<Rightarrow>
                 \<lparr>returned = Inr p,
                  store = Some (JSON_stringify E (cache_record p (now_at_store E) language)),
                  events = evs\<rparr>
             | (Inl error, evs) \<Rightarrow>
                 \<lparr>returned = serve_degraded E storage1, store = storage1,
                  events = evs @ [ConsoleError ''News fetch error details:'']\<rparr>))"

section \<open>The news service with the secondary provider (services/geminiService.ts)\<close>

text \<open>\<^verbatim>\<open>data.choices[0]?.message?.content || "{}"\<close>\<close>

definition openai_content :: "jsval \<Rightarrow> exn + jsval" where
  "openai_content d =
     (case js_get d ''choices'' of
        Inl e \<Rightarrow> Inl e
      | Inr choices \<Rightarrow>
          (case js_get choices ''0'' of
             Inl e \<Rightarrow> Inl e
           | Inr choice \<Rightarrow>
               let content = js_opt (js_opt choice ''message'') ''content''
               in Inr (if truthy content then content else JStr ''{}'')))"

text \<open>Lines 189--218. The text of the answer is parsed as it is: this path strips no
  code fence.\<close>

definition fetchOpenAIFallback :: "env \<Rightarrow> prompt \<Rightarrow> Language \<Rightarrow> (exn + jsval) \<times> event list" where
  "fetchOpenAIFallback E p language =
     (case OPENAI_API_KEY E of
        None \<Rightarrow> (Inl (Error ''OpenAI API Key not configured''), [])
      | Some apiKey \<Rightarrow>
          if apiKey = [] then (Inl (Error ''OpenAI API Key not configured''), [])
          else
            let evs = [ConsoleLog ''Attempting OpenAI Fallback...'', CallSecondary p] in
            (case http_post E apiKey p of
               Inl e \<Rightarrow> (Inl e, evs)
             | Inr response \<Rightarrow>
                 if \<not> ok response
                 then (Inl (Error (''OpenAI Error: '' @ decimal (status response) @ '' ''
                                     @ statusText response)), evs)
                 else
                   (case JSON_parse E (body response) of
                      None \<Rightarrow> (Inl SyntaxError, evs)
                    | Some d \<Rightarrow>
                        (case openai_content d of
                           Inl e \<Rightarrow> (Inl e, evs)
                         | Inr t \<Rightarrow>
                             (case to_string t of
                                Inl e \<Rightarrow> (Inl e, evs)
                              | Inr s \<Rightarrow>
                                  (case JSON_parse E s of
                                     None \<Rightarrow> (Inl SyntaxError, evs)
                                   | Some v \<Rightarrow> (Inr v, evs)))))))"

text \<open>Lines 261--292, up to the cache write. The credential is checked inside the
  \<^verbatim>\<open>try\<close>, and a text that is not JSON throws the parser's own error.\<close>

definition acquire_gemini :: "env \<Rightarrow> prompt \<Rightarrow> (exn + payload) \<times> event list" where
  "acquire_gemini E p =
     (if \<not> configured (API_KEY E) then (Inl (Error ''Gemini API Key missing''), [])
      else
        (case generateContent E p of
           Inl e \<Rightarrow> (Inl e, [CallPrimary p])
         | Inr response \<Rightarrow>
             (case JSON_parse E (clean_text (text_or_default response)) of
                None \<Rightarrow> (Inl SyntaxError, [CallPrimary p])
              | Some parsedData \<Rightarrow>
                  (case grounding_sources (candidates response) of
                     Inl e \<Rightarrow> (Inl e, [CallPrimary p])
                   | Inr srcs \<Rightarrow>
                       (Inr \<lparr>data = parsedData, sources = srcs\<rparr>, [CallPrimary p])))))"

text \<open>Lines 294--329, the handler of the primary's failure. The emergency branch reads
  the variable \<^verbatim>\<open>cached\<close> of the beginning of the call (\<open>storage\<close>), not the slot
  (\<open>storage1\<close>).\<close>

definition primary_failed ::
  "env \<Rightarrow> Language \<Rightarrow> prompt \<Rightarrow> string option \<Rightarrow> string option \<Rightarrow> event list \<Rightarrow> outcome" where
  "primary_failed E language p storage storage1 evs =
     (let evs1 = evs @ [ConsoleWarn ''Primary Provider (Gemini) Failed:''] in
      if configured (OPENAI_API_KEY E) then
        (case fetchOpenAIFallback E p language of
           (Inr openAIData, evs2) \<Rightarrow>
             \<lparr>returned = Inr \<lparr>data = openAIData, sources = JArr []\<rparr>,
              store = Some (JSON_stringify E
                        (cache_record \<lparr>data = openAIData, sources = JArr []\<rparr>
                           (now_at_store E) language)),
              events = evs1 @ evs2\<rparr>
         | (Inl openAIError, evs2) \<Rightarrow>
             \<lparr>returned = serve_degraded E storage, store = storage1,
              events = evs1 @ evs2 @ [ConsoleWarn ''Secondary Provider (OpenAI) Failed:'']\<rparr>)
      else \<lparr>returned = serve_degraded E storage, store = storage1, events = evs1\<rparr>)"

definition fetchNewsUpdates_openai ::
  "env \<Rightarrow> Language \<Rightarrow> NewsHighlight list \<Rightarrow> string option \<Rightarrow> outcome" where
  "fetchNewsUpdates_openai E language previousHighlights storage =
     (case check_cache E language storage of
        Served p \<Rightarrow>
          \<lparr>returned = Inr p, store = storage,
           events = [ConsoleLog ''Serving fresh cache to preserve API quota'']\<rparr>
      | Missed storage1 \<Rightarrow>
          (case acquire_gemini E (build_prompt E language previousHighlights) of
             (Inr p, evs) \<Rightarrow>
               \<lparr>returned = Inr p,
                store = Some (JSON_stringify E (cache_record p (now_at_store E) language)),
                events = evs\<rparr>
           | (Inl error, evs) \<Rightarrow>
               primary_failed E language (build_prompt E language previousHighlights)
                 storage storage1 evs))"

section \<open>The status resolver of the application (unnamed/part\_000, loadNews)\<close>

record AppState =
  state_data :: jsval
  loading :: bool
  error_message :: "string option"
  lastUpdated :: "int option"
  state_sources :: jsval

text \<open>Lines 35--43: \<^verbatim>\<open>{ ...prev.data, generated_at: data.generated_at, status: data.status }\<close>
  when the status is \<^verbatim>\<open>'NO NEW UPDATE'\<close> and \<^verbatim>\<open>prev.data\<close> is set, the response itself
  otherwise. Reading \<^verbatim>\<open>data.status\<close> throws when \<^verbatim>\<open>data\<close> is null.\<close>

definition resolve_data :: "jsval \<Rightarrow> jsval \<Rightarrow> exn + jsval" where
  "resolve_data prev_data d =
     (case js_get d ''status'' of
        Inl e \<Rightarrow> Inl e
      | Inr st \<Rightarrow>
          if st = JStr ''NO NEW UPDATE'' \<and> truthy prev_data
          then Inr (JObj (obj_set (obj_set (own_enumerable prev_data) ''generated_at''
                                     (js_prop d ''generated_at'')) ''status'' st))
          else if st = QUOTA_EXCEEDED then Inr d
          else Inr d)"

text \<open>The function passed to \<^verbatim>\<open>setState\<close> (lines 33--57), with the reference
  \<^verbatim>\<open>previousHighlightsRef.current\<close> that it assigns: the new state or the exception, and
  the reference afterwards. \<open>s2n\<close> is the platform's string-to-number conversion, for
  \<^verbatim>\<open>sources.length > 0\<close>; \<open>date\<close> is \<^verbatim>\<open>new Date()\<close>.\<close>

definition loadNews_update ::
  "(string \<Rightarrow> int option) \<Rightarrow> int \<Rightarrow> payload \<Rightarrow> AppState \<Rightarrow> jsval \<Rightarrow> (exn + AppState) \<times> jsval" where
  "loadNews_update s2n date p prev previousHighlightsRef =
     (case resolve_data (state_data prev) (data p) of
        Inl e \<Rightarrow> (Inl e, previousHighlightsRef)
      | Inr newData \<Rightarrow>
          let ref' = (if js_prop (data p) ''status'' = JStr ''OK''
                      then js_prop (data p) ''highlights'' else previousHighlightsRef)
          in (case js_get (sources p) ''length'' of
                Inl e \<Rightarrow> (Inl e, ref')
              | Inr len \<Rightarrow>
                  (case to_number s2n len of
                     Inl e \<Rightarrow> (Inl e, ref')
                   | Inr n \<Rightarrow>
                       (Inr \<lparr>state_data = newData, loading = False, error_message = None,
                             lastUpdated = Some date,
                             state_sources =
                               (if (case n of None \<Rightarrow> False | Some k \<Rightarrow> 0 < k)
                                then sources p else state_sources prev)\<rparr>,
                        ref'))))"

text \<open>The state before the first load (line 13).\<close>

definition initial_state :: AppState where
  "initial_state =
     \<lparr>state_data = JNull, loading = True, error_message = None, lastUpdated = None,
      state_sources = JArr []\<rparr>"

section \<open>A reference platform, for running the service on concrete inputs\<close>

text \<open>
  \<^verbatim>\<open>JSON.parse\<close>, \<^verbatim>\<open>JSON.stringify\<close> and the string-to-number conversion on the fragment
  of JSON that the model's values cover: integers without fraction or exponent, strings
  without \<^verbatim>\<open>\u\<close> escapes. The theorems below hold for every platform; the concrete runs
  use this one.
\<close>

definition json_space :: "char \<Rightarrow> bool" where
  "json_space c = (c \<in> set [CHR 0x20, CHR 0x09, CHR 0x0A, CHR 0x0D])"

definition skip_ws :: "string \<Rightarrow> string" where
  "skip_ws s = dropWhile json_space s"

definition unescape :: "char \<Rightarrow> char option" where
  "unescape c =
     (if c = CHR 0x22 \<or> c = CHR 0x5C \<or> c = CHR ''/'' then Some c
      else if c = CHR ''b'' then Some (CHR 0x08)
      else if c = CHR ''f'' then Some (CHR 0x0C)
      else if c = CHR ''n'' then Some (CHR 0x0A)
      else if c = CHR ''r'' then Some (CHR 0x0D)
      else if c = CHR ''t'' then Some (CHR 0x09)
      else None)"

text \<open>The characters of a string literal after its opening quote, up to the closing
  one.\<close>

fun parse_chars :: "string \<Rightarrow> string \<Rightarrow> (string \<times> string) option" where
  "parse_chars acc [] = None"
| "parse_chars acc [c] = (if c = CHR 0x22 then Some (rev acc, []) else None)"
| "parse_chars acc (c # d # cs) =
     (if c = CHR 0x22 then Some (rev acc, d # cs)
      else if c = CHR 0x5C then
        (case unescape d of None \<Rightarrow> None | Some u \<Rightarrow> parse_chars (u # acc) cs)
      else if (of_char c :: nat) < 32 then None
      else parse_chars (c # acc) (d # cs))"

definition parse_number :: "string \<Rightarrow> (int \<times> string) option" where
  "parse_number s =
     (let neg = (s \<noteq> [] \<and> hd s = CHR ''-'');
          t = (if neg then tl s else s);
          ds = takeWhile (\<lambda>c. digit_value c \<noteq> None) t;
          rest = dropWhile (\<lambda>c. digit_value c \<noteq> None) t
      in if index_of_key ds = None then None
         else if rest \<noteq> [] \<and> hd rest \<in> set ''.eE'' then None
         else (case digits_value 0 ds of
                 None \<Rightarrow> None
               | Some n \<Rightarrow> Some (if neg then - int n else int n, rest)))"

text \<open>Recursive descent; the first argument bounds the nesting and the number of
  elements, and the length of the text is enough. A repeated key keeps its first place
  and its last value.\<close>

fun parse_value :: "nat \<Rightarrow> string \<Rightarrow> (jsval \<times> string) option"
  and parse_elements :: "nat \<Rightarrow> jsval list \<Rightarrow> string \<Rightarrow> (jsval list \<times> string) option"
  and parse_members ::
    "nat \<Rightarrow> (string \<times> jsval) list \<Rightarrow> string \<Rightarrow> ((string \<times> jsval) list \<times> string) option"
where
  "parse_value 0 s = None"
| "parse_value (Suc n) s =
     (case skip_ws s of
        [] \<Rightarrow> None
      | c # cs \<Rightarrow>
          if take 4 (c # cs) = ''null'' then Some (JNull, drop 4 (c # cs))
          else if take 4 (c # cs) = ''true'' then Some (JBool True, drop 4 (c # cs))
          else if take 5 (c # cs) = ''false'' then Some (JBool False, drop 5 (c # cs))
          else if c = CHR 0x22 then
            (case parse_chars [] cs of None \<Rightarrow> None | Some (str, r) \<Rightarrow> Some (JStr str, r))
          else if c = CHR ''['' then
            (case skip_ws cs of
               [] \<Rightarrow> None
             | d # ds \<Rightarrow>
                 if d = CHR '']'' then Some (JArr [], ds)
                 else (case parse_elements n [] (d # ds) of
                         None \<Rightarrow> None
                       | Some (xs, r) \<Rightarrow> Some (JArr xs, r)))
          else if c = CHR ''{'' then
            (case skip_ws cs of
               [] \<Rightarrow> None
             | d # ds \<Rightarrow>
                 if d = CHR ''}'' then Some (JObj [], ds)
                 else (case parse_members n [] (d # ds) of
                         None \<Rightarrow> None
                       | Some (fs, r) \<Rightarrow> Some (JObj fs, r)))
          else (case parse_number (c # cs) of
                  None \<Rightarrow> None
                | Some (i, r) \<Rightarrow> Some (JNum i, r)))"
| "parse_elements 0 acc s = None"
| "parse_elements (Suc n) acc s =
     (case parse_value n s of
        None \<Rightarrow> None
      | Some (v, r) \<Rightarrow>
          (case skip_ws r of
             [] \<Rightarrow> None
           | c # cs \<Rightarrow>
               if c = CHR '']'' then Some (acc @ [v], cs)
               else if c = CHR '','' then parse_elements n (acc @ [v]) cs
               else None))"
| "parse_members 0 acc s = None"
| "parse_members (Suc n) acc s =
     (case skip_ws s of
        [] \<Rightarrow> None
      | q # qs \<Rightarrow>
          if q \<noteq> CHR 0x22 then None
          else (case parse_chars [] qs of
                  None \<Rightarrow> None
                | Some (k, r) \<Rightarrow>
                    (case skip_ws r of
                       [] \<Rightarrow> None
                     | c # cs \<Rightarrow>
                         if c \<noteq> CHR '':'' then None
                         else (case parse_value n cs of
                                 None \<Rightarrow> None
                               | Some (v, r') \<Rightarrow>
                                   (case skip_ws r' of
                                      [] \<Rightarrow> None
                                    | e # es \<Rightarrow>
                                        if e = CHR ''}'' then Some (obj_set acc k v, es)
                                        else if e = CHR '',''
                                        then parse_members n (obj_set acc k v) es
                                        else None)))))"

definition json_parse :: "string \<Rightarrow> jsval option" where
  "json_parse s =
     (case parse_value (Suc (length s)) s of
        None \<Rightarrow> None
      | Some (v, r) \<Rightarrow> if skip_ws r = [] then Some v else None)"

definition hex_char :: "nat \<Rightarrow> char" where
  "hex_char d = ''0123456789abcdef'' ! (d mod 16)"

definition escape_char :: "char \<Rightarrow> string" where
  "escape_char c =
     (if c = CHR 0x22 then [CHR 0x5C, CHR 0x22]
      else if c = CHR 0x5C then [CHR 0x5C, CHR 0x5C]
      else if c = CHR 0x08 then [CHR 0x5C, CHR ''b'']
      else if c = CHR 0x0C then [CHR 0x5C, CHR ''f'']
      else if c = CHR 0x0A then [CHR 0x5C, CHR ''n'']
      else if c = CHR 0x0D then [CHR 0x5C, CHR ''r'']
      else if c = CHR 0x09 then [CHR 0x5C, CHR ''t'']
      else if (of_char c :: nat) < 32
      then [CHR 0x5C, CHR ''u'', CHR ''0'', CHR ''0'', hex_char (of_char c div 16),
            hex_char (of_char c)]
      else [c])"

definition quoted :: "string \<Rightarrow> string" where
  "quoted s = CHR 0x22 # concat (map escape_char s) @ [CHR 0x22]"

text \<open>An undefined element of an array is written \<^verbatim>\<open>null\<close>, an undefined field of an
  object is left out.\<close>

fun json_stringify :: "jsval \<Rightarrow> string" where
  "json_stringify JUndefined = ''null''"
| "json_stringify JNull = ''null''"
| "json_stringify (JBool b) = (if b then ''true'' else ''false'')"
| "json_stringify (JNum n) = int_string n"
| "json_stringify (JStr s) = quoted s"
| "json_stringify (JArr xs) = ''['' @ intercalate '','' (map json_stringify xs) @ '']''"
| "json_stringify (JObj fs) =
     ''{'' @ intercalate '',''
              (map (\<lambda>f. quoted (fst f) @ '':'' @ json_stringify (snd f))
                 (filter (\<lambda>f. snd f \<noteq> JUndefined) fs)) @ ''}''"

text \<open>The empty string is 0; a decimal integer with an optional sign is its value;
  anything else is \<^verbatim>\<open>NaN\<close>.\<close>

definition string_to_number :: "string \<Rightarrow> int option" where
  "string_to_number s =
     (let t = trim s;
          neg = (t \<noteq> [] \<and> hd t = CHR ''-'');
          u = (if t \<noteq> [] \<and> (hd t = CHR ''-'' \<or> hd t = CHR ''+'') then tl t else t)
      in if t = [] then Some 0
         else if u = [] then None
         else (case digits_value 0 u of
                 None \<Rightarrow> None
               | Some n \<Rightarrow> Some (if neg then - int n else int n)))"

section \<open>The declared shape of a response (types.ts)\<close>

text \<open>The interfaces \<^verbatim>\<open>NewsHighlight\<close> and \<^verbatim>\<open>NewsResponse\<close> as predicates on values. The
  service never evaluates them: TypeScript types are erased, and the parsed value is
  only annotated.\<close>

definition is_string :: "jsval \<Rightarrow> bool" where
  "is_string v = (case v of JStr s \<Rightarrow> True | _ \<Rightarrow> False)"

definition is_NewsHighlight :: "jsval \<Rightarrow> bool" where
  "is_NewsHighlight v =
     (case v of
        JObj fs \<Rightarrow>
          is_string (lookup fs ''headline'') \<and> is_string (lookup fs ''summary'')
          \<and> (lookup fs ''url'' = JUndefined \<or> is_string (lookup fs ''url''))
          \<and> lookup fs ''category'' \<in> set (map JStr [''world'', ''economy'', ''tech'',
                ''security'', ''climate'', ''politics'', ''bangladesh'', ''other''])
          \<and> is_string (lookup fs ''timestamp'')
      | _ \<Rightarrow> False)"

definition is_NewsResponse :: "jsval \<Rightarrow> bool" where
  "is_NewsResponse v =
     (case v of
        JObj fs \<Rightarrow>
          is_string (lookup fs ''generated_at'')
          \<and> lookup fs ''language'' \<in> set [JStr ''en'', JStr ''bn'']
          \<and> lookup fs ''status'' \<in> set [JStr ''OK'', JStr ''NO NEW UPDATE'']
          \<and> (case lookup fs ''highlights'' of
                JArr hs \<Rightarrow> list_all is_NewsHighlight hs
              | _ \<Rightarrow> False)
      | _ \<Rightarrow> False)"

text \<open>A stored record that does not parse: a non-empty text that \<^verbatim>\<open>JSON.parse\<close> rejects,
  or that parses to \<^verbatim>\<open>null\<close>, which cannot be destructured.\<close>

definition unparsable :: "env \<Rightarrow> string option \<Rightarrow> bool" where
  "unparsable E storage =
     (case storage of
        None \<Rightarrow> False
      | Some cached \<Rightarrow>
          cached \<noteq> [] \<and> (case JSON_parse E cached of None \<Rightarrow> True | Some v \<Rightarrow> nullish v))"

text \<open>A stored record that the first \<^verbatim>\<open>try\<close> block cannot read: one that does not
  parse, or whose timestamp cannot be converted to a number.\<close>

definition undeserializable :: "env \<Rightarrow> string option \<Rightarrow> bool" where
  "undeserializable E storage =
     (case storage of
        None \<Rightarrow> False
      | Some cached \<Rightarrow>
          cached \<noteq> []
          \<and> (case JSON_parse E cached of
                None \<Rightarrow> True
              | Some v \<Rightarrow>
                  nullish v \<or> isl (to_number (StringToNumber E) (js_prop v ''timestamp''))))"

section \<open>Concrete environments\<close>

text \<open>Both credentials are set and both network calls fail.\<close>

definition env_down :: env where
  "env_down =
     \<lparr>API_KEY = Some ''primary-key'', OPENAI_API_KEY = Some ''secondary-key'',
      JSON_parse = json_parse, JSON_stringify = json_stringify,
      StringToNumber = string_to_number,
      now_at_check = 1700000000000, now_at_store = 1700000000750,
      iso_now = ''2023-11-14T22:13:20.000Z'', iso_module_load = ''2023-11-14T22:00:00.000Z'',
      generateContent = (\<lambda>p. Inl (Error ''429 RESOURCE_EXHAUSTED'')),
      http_post = (\<lambda>k p. Inl (Error ''Failed to fetch''))\<rparr>"

text \<open>No credential is set.\<close>

definition env_unconfigured :: env where
  "env_unconfigured = env_down\<lparr>API_KEY := None, OPENAI_API_KEY := None\<rparr>"

text \<open>A record stored for English ten minutes before \<open>now_at_check env_down\<close>, and a
  text that is not JSON.\<close>

definition cached_en :: string where
  \<open>cached_en = ''{"data":{"generated_at":"2023-11-14 22:03 UTC","language":"en","status":"OK","highlights":[{"headline":"H1","category":"world"}]},"sources":[{"uri":"https://a.example","title":"A"}],"timestamp":1699999400000,"lang":"en"}''\<close>

definition cached_en_value :: jsval where
  "cached_en_value =
     JObj [(''data'', JObj [(''generated_at'', JStr ''2023-11-14 22:03 UTC''),
                            (''language'', JStr ''en''), (''status'', JStr ''OK''),
                            (''highlights'',
                               JArr [JObj [(''headline'', JStr ''H1''),
                                           (''category'', JStr ''world'')]])]),
           (''sources'', JArr [JObj [(''uri'', JStr ''https://a.example''),
                                     (''title'', JStr ''A'')]]),
           (''timestamp'', JNum 1699999400000),
           (''lang'', JStr ''en'')]"

definition cached_garbage :: string where
  "cached_garbage = ''{not json''"

text \<open>The primary provider answers with prose; the secondary one answers with a chat
  completion whose content is a response in Bengali.\<close>

definition secondary_text :: string where
  \<open>secondary_text = ''{"generated_at":"2023-11-14 22:13 UTC","language":"bn","status":"OK","highlights":[]}''\<close>

definition secondary_value :: jsval where
  "secondary_value =
     JObj [(''generated_at'', JStr ''2023-11-14 22:13 UTC''), (''language'', JStr ''bn''),
           (''status'', JStr ''OK''), (''highlights'', JArr [])]"

definition openai_body :: string where
  "openai_body =
     json_stringify
       (JObj [(''choices'',
               JArr [JObj [(''message'', JObj [(''role'', JStr ''assistant''),
                                               (''content'', JStr secondary_text)])]])])"

definition env_secondary :: env where
  "env_secondary =
     env_down
       \<lparr>generateContent :=
          (\<lambda>p. Inr \<lparr>response_text = Some ''I am unable to browse.'', candidates = JUndefined\<rparr>),
        http_post :=
          (\<lambda>k p. Inr \<lparr>ok = True, status = 200, statusText = ''OK'', body = openai_body\<rparr>)\<rparr>"

text \<open>The primary provider answers with a fenced response and one grounding chunk.\<close>

definition primary_text :: string where
  \<open>primary_text =
     fence_json @ [CHR 0x0A]
     @ ''{"generated_at":"2023-11-14 22:13 UTC","language":"en","status":"OK","highlights":[]}''
     @ [CHR 0x0A] @ fence\<close>

definition primary_value :: jsval where
  "primary_value =
     JObj [(''generated_at'', JStr ''2023-11-14 22:13 UTC''), (''language'', JStr ''en''),
           (''status'', JStr ''OK''), (''highlights'', JArr [])]"

definition primary_source :: jsval where
  "primary_source = JObj [(''uri'', JStr ''https://b.example''), (''title'', JStr ''B'')]"

definition env_primary :: env where
  "env_primary =
     env_down
       \<lparr>generateContent :=
          (\<lambda>p. Inr \<lparr>response_text = Some primary_text,
                    candidates =
                      JArr [JObj [(''groundingMetadata'',
                                   JObj [(''groundingChunks'',
                                          JArr [JObj [(''web'', primary_source)],
                                                JObj [(''retrievedContext'', JObj [])]])])]]\<rparr>)\<rparr>"

text \<open>A response of the provider with the status \<^verbatim>\<open>'NO NEW UPDATE'\<close> and one highlight, and
  the state of the application while it shows the static fallback.\<close>

definition echo_response :: payload where
  "echo_response =
     \<lparr>data = JObj [(''generated_at'', JStr ''2023-11-14 22:13 UTC''),
                   (''language'', JStr ''en''),
                   (''status'', JStr ''NO NEW UPDATE''),
                   (''highlights'', JArr [JObj [(''headline'', JStr ''H2''),
                                                (''category'', JStr ''tech'')]])],
      sources = JArr []\<rparr>"

definition archive_state :: AppState where
  "archive_state =
     \<lparr>state_data = FALLBACK_DATA env_down, loading = False, error_message = None,
      lastUpdated = Some 1700000000000, state_sources = JArr []\<rparr>"

text \<open>The primary provider answers without any text.\<close>

definition env_silent :: env where
  "env_silent =
     env_down\<lparr>generateContent := (\<lambda>p. Inr \<lparr>response_text = None, candidates = JUndefined\<rparr>)\<rparr>"

section \<open>Basic facts\<close>

lemma lookup_obj_set: "lookup (obj_set fs k v) k' = (if k' = k then v else lookup fs k')"
  by (induction fs) (auto simp: lookup_def)

lemma lang_str_eq [simp]: "lang_str a = lang_str b \<longleftrightarrow> a = b"
  by (cases a; cases b) (simp_all add: lang_str_def)

lemmas platform_defs =
  json_parse_def skip_ws_def json_space_def parse_number_def unescape_def
  digit_value_def index_of_key_def

lemma parse_cached_en: "json_parse cached_en = Some cached_en_value"
  by (simp add: cached_en_def cached_en_value_def platform_defs)

lemma parse_cached_garbage: "json_parse cached_garbage = None"
  by (simp add: cached_garbage_def platform_defs)

lemma cached_nonempty: "cached_en \<noteq> []" "cached_garbage \<noteq> []"
  by (simp_all add: cached_en_def cached_garbage_def)

lemma env_down_simps:
  "API_KEY env_down = Some ''primary-key''"
  "OPENAI_API_KEY env_down = Some ''secondary-key''"
  "JSON_parse env_down = json_parse"
  "JSON_stringify env_down = json_stringify"
  "StringToNumber env_down = string_to_number"
  "now_at_check env_down = 1700000000000"
  "now_at_store env_down = 1700000000750"
  "iso_now env_down = ''2023-11-14T22:13:20.000Z''"
  "iso_module_load env_down = ''2023-11-14T22:00:00.000Z''"
  "generateContent env_down = (\<lambda>p. Inl (Error ''429 RESOURCE_EXHAUSTED''))"
  "http_post env_down = (\<lambda>k p. Inl (Error ''Failed to fetch''))"
  by (simp_all add: env_down_def)

lemma static_fallback_fields:
  "js_prop (FALLBACK_DATA E) ''status'' = QUOTA_EXCEEDED"
  "js_prop (FALLBACK_DATA E) ''highlights'' = JArr fallback_highlights"
  "js_prop (FALLBACK_DATA E) ''language'' = JStr ''en''"
  "js_prop (FALLBACK_DATA E) ''generated_at'' = JStr (iso_module_load E)"
  by (simp_all add: FALLBACK_DATA_def lookup_def QUOTA_EXCEEDED_def)

lemma configErrorData_eq:
  "configErrorData E =
     JObj [(''generated_at'', JStr (iso_module_load E)), (''language'', JStr ''en''),
           (''status'', JStr ''QUOTA_EXCEEDED''), (''highlights'', JArr [config_highlight])]"
  by (simp add: configErrorData_def FALLBACK_DATA_def)

lemma serve_degraded_returns: "\<exists>p. serve_degraded E storage = Inr p"
  by (simp add: serve_degraded_def split: option.split sum.split)

lemma check_cache_readable:
  assumes "cached \<noteq> []" and "JSON_parse E cached = Some entry" and "\<not> nullish entry"
    and "to_number (StringToNumber E) (js_prop entry ''timestamp'') = Inr n"
  shows "check_cache E language (Some cached) =
           (if (case n of None \<Rightarrow> False | Some t \<Rightarrow> now_at_check E - t < CACHE_DURATION_MS)
               \<and> js_prop entry ''lang'' = JStr (lang_str language)
            then Served \<lparr>data = js_prop entry ''data'', sources = js_prop entry ''sources''\<rparr>
            else Missed (Some cached))"
  using assms by (simp add: check_cache_def read_fresh_def)

lemma acquire_primary_events:
  "snd (acquire_primary E q) = [CallPrimary q]
   \<or> snd (acquire_primary E q) = [CallPrimary q, ConsoleError ''Failed to parse JSON'']"
  by (simp add: acquire_primary_def split: sum.split)

lemma acquire_gemini_events:
  "snd (acquire_gemini E q) = (if configured (API_KEY E) then [CallPrimary q] else [])"
  by (simp add: acquire_gemini_def split: sum.split option.split)

lemma fetchNewsUpdates_missed:
  assumes "check_cache E language storage = Missed storage1" and "configured (API_KEY E)"
  shows "\<exists>rest. events (fetchNewsUpdates E language prev storage)
                  = CallPrimary (build_prompt E language prev) # rest"
  using assms acquire_primary_events [of E "build_prompt E language prev"]
  by (auto simp: fetchNewsUpdates_def split: prod.split sum.split)

lemma fetchNewsUpdates_openai_missed:
  assumes "check_cache E language storage = Missed storage1"
  shows "\<exists>rest. events (fetchNewsUpdates_openai E language prev storage) =
           (if configured (API_KEY E) then CallPrimary (build_prompt E language prev)
            else ConsoleWarn ''Primary Provider (Gemini) Failed:'') # rest"
proof (cases "acquire_gemini E (build_prompt E language prev)")
  case (Pair r evs)
  then have evs: "evs = (if configured (API_KEY E) then [CallPrimary (build_prompt E language prev)]
                         else [])"
    using acquire_gemini_events [of E "build_prompt E language prev"] by simp
  show ?thesis
  proof (cases r)
    case (Inl e)
    with Pair evs assms show ?thesis
      by (simp add: fetchNewsUpdates_openai_def primary_failed_def Let_def
            split: prod.split sum.split)
  next
    case (Inr p)
    with Pair have "configured (API_KEY E)"
      by (auto simp: acquire_gemini_def split: if_splits)
    with Inr Pair evs assms show ?thesis
      by (simp add: fetchNewsUpdates_openai_def)
  qed
qed

section \<open>Totality\<close>

text \<open>
  Claim C1. For every language, every sequence of previous highlights, every content of
  the cache slot and every behaviour of the platform and of the providers,
  \<^verbatim>\<open>fetchNewsUpdates\<close> resolves to a value \<^verbatim>\<open>{ data, sources }\<close>: no exception reaches the
  caller. This holds for the revision with the configuration check and for the revision
  with the secondary provider.
\<close>

theorem fetchNewsUpdates_total:
  "(\<exists>p. returned (fetchNewsUpdates E language previousHighlights storage) = Inr p)
   \<and> (\<exists>p. returned (fetchNewsUpdates_openai E language previousHighlights storage) = Inr p)"
proof
  show "\<exists>p. returned (fetchNewsUpdates E language previousHighlights storage) = Inr p"
    using serve_degraded_returns
    by (simp add: fetchNewsUpdates_def split: cache_step.split prod.split sum.split)
next
  have "\<exists>p. returned (primary_failed E language q storage s1 evs) = Inr p" for q s1 evs
    using serve_degraded_returns
    by (simp add: primary_failed_def Let_def split: prod.split sum.split)
  then show "\<exists>p. returned (fetchNewsUpdates_openai E language previousHighlights storage) = Inr p"
    by (simp add: fetchNewsUpdates_openai_def split: cache_step.split prod.split sum.split)
qed

section \<open>The static fallback\<close>

text \<open>
  Claim C6. When the providers fail and the cache slot is empty, the call resolves to
  exactly \<^verbatim>\<open>{ data: FALLBACK_DATA, sources: [] }\<close>, whose status is
  \<^verbatim>\<open>QUOTA_EXCEEDED\<close> and whose highlights are the four archival ones. In the revision with
  the configuration check the provider is the primary one, called because the credential
  is set; in the revision with the secondary provider both attempts fail, for whatever
  reason.
\<close>

theorem static_fallback_terminal:
  "(configured (API_KEY E)
      \<and> isl (fst (acquire_primary E (build_prompt E language previousHighlights)))
      \<and> storage = None
    \<longrightarrow> returned (fetchNewsUpdates E language previousHighlights storage)
          = Inr \<lparr>data = FALLBACK_DATA E, sources = JArr []\<rparr>)
   \<and> (isl (fst (acquire_gemini E (build_prompt E language previousHighlights)))
      \<and> isl (fst (fetchOpenAIFallback E (build_prompt E language previousHighlights) language))
      \<and> storage = None
    \<longrightarrow> returned (fetchNewsUpdates_openai E language previousHighlights storage)
          = Inr \<lparr>data = FALLBACK_DATA E, sources = JArr []\<rparr>)
   \<and> js_prop (FALLBACK_DATA E) ''status'' = JStr ''QUOTA_EXCEEDED''
   \<and> js_prop (FALLBACK_DATA E) ''highlights'' = JArr fallback_highlights"
  by (auto simp: fetchNewsUpdates_def fetchNewsUpdates_openai_def check_cache_def
        serve_degraded_def static_fallback_def primary_failed_def static_fallback_fields
        QUOTA_EXCEEDED_def Let_def isl_def split: prod.splits sum.splits)

theorem static_fallback_terminal_witness:
  "configured (API_KEY env_down)
   \<and> isl (fst (acquire_primary env_down (build_prompt env_down bn [])))
   \<and> returned (fetchNewsUpdates env_down bn [] None)
       = Inr \<lparr>data = FALLBACK_DATA env_down, sources = JArr []\<rparr>
   \<and> isl (fst (acquire_gemini env_down (build_prompt env_down bn [])))
   \<and> isl (fst (fetchOpenAIFallback env_down (build_prompt env_down bn []) bn))
   \<and> returned (fetchNewsUpdates_openai env_down bn [] None)
       = Inr \<lparr>data = FALLBACK_DATA env_down, sources = JArr []\<rparr>"
  using static_fallback_terminal [of env_down bn "[]" None]
  by (simp add: env_down_simps configured_def acquire_primary_def acquire_gemini_def
        fetchOpenAIFallback_def)

section \<open>The configuration error\<close>

text \<open>
  Claim C9, as the code has it. When the cache slot is empty and \<^verbatim>\<open>API_KEY\<close> is not set,
  the call (for any language and previous highlights, so for \<^verbatim>\<open>('en', [])\<close>) resolves to
  a copy of the static fallback whose whole list of highlights is replaced by the single
  "Configuration Required" highlight: the three other archival highlights are not in
  it. The status is \<^verbatim>\<open>QUOTA_EXCEEDED\<close>, the sources are empty, the slot stays empty, and the
  only effect is the console warning: no provider is called.
\<close>

theorem config_error_response:
  assumes "\<not> configured (API_KEY E)" and "storage = None"
  shows "fetchNewsUpdates E language previousHighlights storage =
           \<lparr>returned =
              Inr \<lparr>data = JObj [(''generated_at'', JStr (iso_module_load E)),
                                (''language'', JStr ''en''),
                                (''status'', JStr ''QUOTA_EXCEEDED''),
                                (''highlights'', JArr [config_highlight])],
                   sources = JArr []\<rparr>,
            store = None,
            events = [ConsoleWarn ''API Key is missing.'']\<rparr>"
  using assms by (simp add: fetchNewsUpdates_def check_cache_def configErrorData_eq)

theorem config_error_response_witness:
  "\<not> configured (API_KEY env_unconfigured)
   \<and> fetchNewsUpdates env_unconfigured en [] None =
           \<lparr>returned =
              Inr \<lparr>data = JObj [(''generated_at'', JStr ''2023-11-14T22:00:00.000Z''),
                                (''language'', JStr ''en''),
                                (''status'', JStr ''QUOTA_EXCEEDED''),
                                (''highlights'', JArr [config_highlight])],
                   sources = JArr []\<rparr>,
            store = None,
            events = [ConsoleWarn ''API Key is missing.'']\<rparr>"
  using config_error_response [of env_unconfigured None en "[]"]
  by (simp add: env_unconfigured_def env_down_simps configured_def)

text \<open>
  The claim as the specification states it: the static fallback set in which the
  highlight "System Maintenance: Live Feed Paused" is replaced by the "Configuration
  Required" highlight. The call does not resolve to that.
\<close>

theorem config_error_keeps_archive_counterexample:
  "returned (fetchNewsUpdates env_unconfigured en [] None)
     \<noteq> Inr \<lparr>data = JObj (obj_set (own_enumerable (FALLBACK_DATA env_unconfigured)) ''highlights''
                        (JArr (map (\<lambda>h. if js_prop h ''headline''
                                              = JStr ''System Maintenance: Live Feed Paused''
                                         then config_highlight else h)
                                  fallback_highlights))),
             sources = JArr []\<rparr>
   \<and> returned (fetchNewsUpdates env_unconfigured en [] None)
     = Inr \<lparr>data = JObj (obj_set (own_enumerable (FALLBACK_DATA env_unconfigured)) ''highlights''
                        (JArr [config_highlight])),
             sources = JArr []\<rparr>"
  by (simp add: fetchNewsUpdates_def check_cache_def env_unconfigured_def env_down_simps
        configured_def configErrorData_def FALLBACK_DATA_def fallback_highlights_def)

section \<open>Concrete runs of the providers\<close>

lemma env_secondary_simps:
  "API_KEY env_secondary = Some ''primary-key''"
  "OPENAI_API_KEY env_secondary = Some ''secondary-key''"
  "JSON_parse env_secondary = json_parse"
  "JSON_stringify env_secondary = json_stringify"
  "StringToNumber env_secondary = string_to_number"
  "now_at_check env_secondary = 1700000000000"
  "now_at_store env_secondary = 1700000000750"
  "generateContent env_secondary =
     (\<lambda>p. Inr \<lparr>response_text = Some ''I am unable to browse.'', candidates = JUndefined\<rparr>)"
  "http_post env_secondary =
     (\<lambda>k p. Inr \<lparr>ok = True, status = 200, statusText = ''OK'', body = openai_body\<rparr>)"
  by (simp_all add: env_secondary_def env_down_simps)

lemma env_primary_simps:
  "API_KEY env_primary = Some ''primary-key''"
  "OPENAI_API_KEY env_primary = Some ''secondary-key''"
  "JSON_parse env_primary = json_parse"
  "JSON_stringify env_primary = json_stringify"
  "StringToNumber env_primary = string_to_number"
  "now_at_check env_primary = 1700000000000"
  "now_at_store env_primary = 1700000000750"
  by (simp_all add: env_primary_def env_down_simps)

lemma texts_nonempty: "primary_text \<noteq> []" "secondary_text \<noteq> []"
  by (simp_all add: primary_text_def secondary_text_def fence_json_def)

lemma parse_prose: "json_parse (clean_text ''I am unable to browse.'') = None"
  by (simp add: clean_text_def trim_def js_space_def fence_def fence_json_def platform_defs)

lemma parse_secondary_text: "json_parse secondary_text = Some secondary_value"
  by (simp add: secondary_text_def secondary_value_def platform_defs)

lemma parse_openai_body:
  "json_parse openai_body =
     Some (JObj [(''choices'',
                  JArr [JObj [(''message'', JObj [(''role'', JStr ''assistant''),
                                                  (''content'', JStr secondary_text)])]])])"
  by (simp add: openai_body_def secondary_text_def quoted_def escape_char_def platform_defs)

lemma clean_primary_text:
  \<open>clean_text primary_text =
     ''{"generated_at":"2023-11-14 22:13 UTC","language":"en","status":"OK","highlights":[]}''\<close>
  by (simp add: primary_text_def clean_text_def trim_def js_space_def fence_def fence_json_def)

lemma parse_primary_text: "json_parse (clean_text primary_text) = Some primary_value"
  by (simp add: clean_primary_text primary_value_def platform_defs)

lemma acquire_primary_env_down:
  "acquire_primary env_down q = (Inl (Error ''429 RESOURCE_EXHAUSTED''), [CallPrimary q])"
  by (simp add: acquire_primary_def env_down_simps)

lemma acquire_gemini_env_down:
  "acquire_gemini env_down q = (Inl (Error ''429 RESOURCE_EXHAUSTED''), [CallPrimary q])"
  by (simp add: acquire_gemini_def env_down_simps configured_def)

lemma fetchOpenAIFallback_env_down:
  "fetchOpenAIFallback env_down q l =
     (Inl (Error ''Failed to fetch''),
      [ConsoleLog ''Attempting OpenAI Fallback...'', CallSecondary q])"
  by (simp add: fetchOpenAIFallback_def env_down_simps)

lemma acquire_primary_env_primary:
  "acquire_primary env_primary q =
     (Inr \<lparr>data = primary_value, sources = JArr [primary_source]\<rparr>, [CallPrimary q])"
  by (simp add: acquire_primary_def env_primary_def env_down_simps normalize_def
        text_or_default_def parse_primary_text texts_nonempty grounding_sources_def
        grounding_chunks_def js_opt_def index_of_key_def digit_value_def js_get_def lookup_def
        primary_source_def)

lemma acquire_gemini_env_secondary:
  "acquire_gemini env_secondary q = (Inl SyntaxError, [CallPrimary q])"
  by (simp add: acquire_gemini_def env_secondary_simps configured_def text_or_default_def
        parse_prose)

lemma fetchOpenAIFallback_env_secondary:
  "fetchOpenAIFallback env_secondary q l =
     (Inr secondary_value, [ConsoleLog ''Attempting OpenAI Fallback...'', CallSecondary q])"
  by (simp add: fetchOpenAIFallback_def env_secondary_simps parse_openai_body
        openai_content_def js_get_def lookup_def index_of_key_def digit_value_def js_opt_def
        texts_nonempty parse_secondary_text)

lemma cached_en_fields:
  "js_prop cached_en_value ''timestamp'' = JNum 1699999400000"
  "js_prop cached_en_value ''lang'' = JStr ''en''"
  "\<not> nullish cached_en_value"
  by (simp_all add: cached_en_value_def lookup_def)

lemma read_fresh_cached_en:
  "read_fresh env_down en cached_en =
     Inr (Some \<lparr>data = js_prop cached_en_value ''data'',
                sources = js_prop cached_en_value ''sources''\<rparr>)"
  "read_fresh env_down bn cached_en = Inr None"
  by (simp_all add: read_fresh_def env_down_simps parse_cached_en cached_en_fields
        CACHE_DURATION_MS_def lang_str_def)

section \<open>Cache precedence\<close>

text \<open>
  Claim C4. Let the slot hold a record that parses to a value with a numeric capture
  time. The call ends at the freshness check (it resolves to the record's
  \<^verbatim>\<open>{ data, sources }\<close>, leaves the slot as it is, and its only effect is the console line
  "Serving fresh cache", so no provider is called) exactly when
  \<^verbatim>\<open>Date.now() - timestamp < 15 * 60 * 1000\<close> and the stored language is the requested one.
  Otherwise, with the credential set, the primary provider is called: a fresh record
  for \<^verbatim>\<open>'en'\<close> does not serve a request for \<^verbatim>\<open>'bn'\<close>. Both revisions.
\<close>

theorem fresh_cache_precedence:
  assumes "storage = Some cached" and "cached \<noteq> []"
    and "JSON_parse E cached = Some entry" and "\<not> nullish entry"
    and "to_number (StringToNumber E) (js_prop entry ''timestamp'') = Inr (Some capturedAt)"
  shows "(fetchNewsUpdates E language previousHighlights storage =
            \<lparr>returned = Inr \<lparr>data = js_prop entry ''data'', sources = js_prop entry ''sources''\<rparr>,
             store = storage,
             events = [ConsoleLog ''Serving fresh cache to preserve API quota'']\<rparr>
          \<longleftrightarrow> now_at_check E - capturedAt < 15 * 60 * 1000
                \<and> js_prop entry ''lang'' = JStr (lang_str language))
       \<and> (fetchNewsUpdates_openai E language previousHighlights storage =
            \<lparr>returned = Inr \<lparr>data = js_prop entry ''data'', sources = js_prop entry ''sources''\<rparr>,
             store = storage,
             events = [ConsoleLog ''Serving fresh cache to preserve API quota'']\<rparr>
          \<longleftrightarrow> now_at_check E - capturedAt < 15 * 60 * 1000
                \<and> js_prop entry ''lang'' = JStr (lang_str language))
       \<and> (\<not> (now_at_check E - capturedAt < 15 * 60 * 1000
                \<and> js_prop entry ''lang'' = JStr (lang_str language))
            \<and> configured (API_KEY E)
          \<longrightarrow> CallPrimary (build_prompt E language previousHighlights)
                \<in> set (events (fetchNewsUpdates E language previousHighlights storage))
              \<and> CallPrimary (build_prompt E language previousHighlights)
                \<in> set (events (fetchNewsUpdates_openai E language previousHighlights storage)))"
proof -
  let ?fresh = "now_at_check E - capturedAt < 15 * 60 * 1000
                \<and> js_prop entry ''lang'' = JStr (lang_str language)"
  let ?served =
    "\<lparr>returned = Inr \<lparr>data = js_prop entry ''data'', sources = js_prop entry ''sources''\<rparr>,
      store = storage,
      events = [ConsoleLog ''Serving fresh cache to preserve API quota'']\<rparr>"
  have cc: "check_cache E language storage =
           (if ?fresh
            then Served \<lparr>data = js_prop entry ''data'', sources = js_prop entry ''sources''\<rparr>
            else Missed storage)"
    using assms by (simp add: check_cache_readable CACHE_DURATION_MS_def)
  have a: "fetchNewsUpdates E language previousHighlights storage = ?served" if "?fresh"
    using that cc by (simp add: fetchNewsUpdates_def)
  have b: "fetchNewsUpdates_openai E language previousHighlights storage = ?served" if "?fresh"
    using that cc by (simp add: fetchNewsUpdates_openai_def)
  have c: "fetchNewsUpdates E language previousHighlights storage \<noteq> ?served" if "\<not> ?fresh"
  proof (cases "configured (API_KEY E)")
    case True
    with that cc obtain rest where
      "events (fetchNewsUpdates E language previousHighlights storage)
         = CallPrimary (build_prompt E language previousHighlights) # rest"
      using fetchNewsUpdates_missed [of E language storage storage previousHighlights] by auto
    then show ?thesis by auto
  next
    case False
    with that cc show ?thesis by (auto simp: fetchNewsUpdates_def)
  qed
  have d: "fetchNewsUpdates_openai E language previousHighlights storage \<noteq> ?served"
    if "\<not> ?fresh"
  proof -
    from that cc obtain rest where
      "events (fetchNewsUpdates_openai E language previousHighlights storage)
         = (if configured (API_KEY E) then CallPrimary (build_prompt E language previousHighlights)
            else ConsoleWarn ''Primary Provider (Gemini) Failed:'') # rest"
      using fetchNewsUpdates_openai_missed [of E language storage storage previousHighlights]
      by auto
    then show ?thesis by (auto split: if_splits)
  qed
  have e: "CallPrimary (build_prompt E language previousHighlights)
                \<in> set (events (fetchNewsUpdates E language previousHighlights storage))
              \<and> CallPrimary (build_prompt E language previousHighlights)
                \<in> set (events (fetchNewsUpdates_openai E language previousHighlights storage))"
    if "\<not> ?fresh" "configured (API_KEY E)"
  proof -
    from that cc obtain rest where
      "events (fetchNewsUpdates E language previousHighlights storage)
         = CallPrimary (build_prompt E language previousHighlights) # rest"
      using fetchNewsUpdates_missed [of E language storage storage previousHighlights] by auto
    moreover from that cc obtain rest' where
      "events (fetchNewsUpdates_openai E language previousHighlights storage)
         = CallPrimary (build_prompt E language previousHighlights) # rest'"
      using fetchNewsUpdates_openai_missed [of E language storage storage previousHighlights]
      by auto
    ultimately show ?thesis by simp
  qed
  show ?thesis
    using a b c d e by blast
qed

theorem fresh_cache_precedence_witness:
  "json_parse cached_en = Some cached_en_value
   \<and> to_number string_to_number (js_prop cached_en_value ''timestamp'')
       = Inr (Some 1699999400000)
   \<and> now_at_check env_down - 1699999400000 < 15 * 60 * 1000
   \<and> js_prop cached_en_value ''lang'' = JStr (lang_str en)
   \<and> fetchNewsUpdates env_down en [] (Some cached_en) =
       \<lparr>returned = Inr \<lparr>data = js_prop cached_en_value ''data'',
                         sources = js_prop cached_en_value ''sources''\<rparr>,
        store = Some cached_en,
        events = [ConsoleLog ''Serving fresh cache to preserve API quota'']\<rparr>
   \<and> fetchNewsUpdates_openai env_down en [] (Some cached_en) =
       \<lparr>returned = Inr \<lparr>data = js_prop cached_en_value ''data'',
                         sources = js_prop cached_en_value ''sources''\<rparr>,
        store = Some cached_en,
        events = [ConsoleLog ''Serving fresh cache to preserve API quota'']\<rparr>
   \<and> js_prop cached_en_value ''lang'' \<noteq> JStr (lang_str bn)
   \<and> CallPrimary (build_prompt env_down bn []) \<in> set (events (fetchNewsUpdates env_down bn [] (Some cached_en)))
   \<and> CallPrimary (build_prompt env_down bn [])
       \<in> set (events (fetchNewsUpdates_openai env_down bn [] (Some cached_en)))"
  using fresh_cache_precedence [of "Some cached_en" cached_en env_down cached_en_value
          1699999400000 en "[]"]
        fresh_cache_precedence [of "Some cached_en" cached_en env_down cached_en_value
          1699999400000 bn "[]"]
  by (simp add: cached_nonempty parse_cached_en cached_en_fields env_down_simps lang_str_def
        configured_def)

section \<open>Serving the stale record\<close>

lemma quota_marked_status: "js_prop (quota_marked d) ''status'' = JStr ''QUOTA_EXCEEDED''"
  by (simp add: quota_marked_def lookup_obj_set QUOTA_EXCEEDED_def)

lemma quota_marked_frame:
  "k \<noteq> ''status'' \<Longrightarrow> js_prop (quota_marked (JObj fs)) k = js_prop (JObj fs) k"
  by (simp add: quota_marked_def lookup_obj_set)

lemma serve_degraded_readable:
  assumes "cached \<noteq> []" and "JSON_parse E cached = Some entry" and "\<not> nullish entry"
  shows "serve_degraded E (Some cached) =
           Inr \<lparr>data = quota_marked (js_prop entry ''data''), sources = js_prop entry ''sources''\<rparr>"
  using assms by (simp add: serve_degraded_def read_stale_def)

text \<open>
  Claim C3. Let the slot hold a record that can be read and that the freshness check
  did not serve (it is stale, or fresh for another language). When the primary provider
  is called and fails (and, in the revision with the secondary provider, the secondary
  attempt fails too, a missing credential included), the call resolves to the record's
  data with \<^verbatim>\<open>status\<close> set to \<^verbatim>\<open>QUOTA_EXCEEDED\<close>, whatever the stored status was, and to the
  record's sources. Every other field of a data object is as stored, and the slot is
  not touched.
\<close>

theorem stale_serving_override:
  assumes "storage = Some cached" and "cached \<noteq> []"
    and "JSON_parse E cached = Some entry" and "\<not> nullish entry"
    and "read_fresh E language cached = Inr None"
  shows "(configured (API_KEY E)
            \<and> isl (fst (acquire_primary E (build_prompt E language previousHighlights)))
          \<longrightarrow> returned (fetchNewsUpdates E language previousHighlights storage)
                = Inr \<lparr>data = quota_marked (js_prop entry ''data''),
                        sources = js_prop entry ''sources''\<rparr>
              \<and> store (fetchNewsUpdates E language previousHighlights storage) = storage)
       \<and> (isl (fst (acquire_gemini E (build_prompt E language previousHighlights)))
            \<and> isl (fst (fetchOpenAIFallback E (build_prompt E language previousHighlights) language))
          \<longrightarrow> returned (fetchNewsUpdates_openai E language previousHighlights storage)
                = Inr \<lparr>data = quota_marked (js_prop entry ''data''),
                        sources = js_prop entry ''sources''\<rparr>
              \<and> store (fetchNewsUpdates_openai E language previousHighlights storage) = storage)
       \<and> js_prop (quota_marked (js_prop entry ''data'')) ''status'' = JStr ''QUOTA_EXCEEDED''
       \<and> (\<forall>fs k. js_prop entry ''data'' = JObj fs \<and> k \<noteq> ''status''
              \<longrightarrow> js_prop (quota_marked (js_prop entry ''data'')) k = lookup fs k)"
proof -
  have cc: "check_cache E language storage = Missed storage"
    using assms by (simp add: check_cache_def)
  have sd: "serve_degraded E storage =
              Inr \<lparr>data = quota_marked (js_prop entry ''data''), sources = js_prop entry ''sources''\<rparr>"
    using assms serve_degraded_readable by simp
  have v2: "returned (fetchNewsUpdates E language previousHighlights storage)
                = Inr \<lparr>data = quota_marked (js_prop entry ''data''),
                        sources = js_prop entry ''sources''\<rparr>
              \<and> store (fetchNewsUpdates E language previousHighlights storage) = storage"
    if "configured (API_KEY E)"
       "isl (fst (acquire_primary E (build_prompt E language previousHighlights)))"
    using that cc sd by (auto simp: fetchNewsUpdates_def isl_def split: prod.split sum.split)
  have v3: "returned (fetchNewsUpdates_openai E language previousHighlights storage)
                = Inr \<lparr>data = quota_marked (js_prop entry ''data''),
                        sources = js_prop entry ''sources''\<rparr>
              \<and> store (fetchNewsUpdates_openai E language previousHighlights storage) = storage"
    if "isl (fst (acquire_gemini E (build_prompt E language previousHighlights)))"
       "isl (fst (fetchOpenAIFallback E (build_prompt E language previousHighlights) language))"
    using that cc sd
    by (auto simp: fetchNewsUpdates_openai_def primary_failed_def Let_def isl_def
          split: prod.split sum.split)
  have fr: "js_prop (quota_marked (js_prop entry ''data'')) k = lookup fs k"
    if "js_prop entry ''data'' = JObj fs" "k \<noteq> ''status''" for fs k
    using that quota_marked_frame [of k fs] by simp
  show ?thesis
    using v2 v3 fr quota_marked_status by blast
qed

theorem stale_serving_override_witness:
  "json_parse cached_en = Some cached_en_value
   \<and> read_fresh env_down bn cached_en = Inr None
   \<and> configured (API_KEY env_down)
   \<and> isl (fst (acquire_primary env_down (build_prompt env_down bn [])))
   \<and> returned (fetchNewsUpdates env_down bn [] (Some cached_en))
       = Inr \<lparr>data = JObj [(''generated_at'', JStr ''2023-11-14 22:03 UTC''),
                            (''language'', JStr ''en''),
                            (''status'', JStr ''QUOTA_EXCEEDED''),
                            (''highlights'',
                               JArr [JObj [(''headline'', JStr ''H1''),
                                           (''category'', JStr ''world'')]])],
               sources = JArr [JObj [(''uri'', JStr ''https://a.example''),
                                     (''title'', JStr ''A'')]]\<rparr>
   \<and> store (fetchNewsUpdates env_down bn [] (Some cached_en)) = Some cached_en
   \<and> isl (fst (acquire_gemini env_down (build_prompt env_down bn [])))
   \<and> isl (fst (fetchOpenAIFallback env_down (build_prompt env_down bn []) bn))
   \<and> returned (fetchNewsUpdates_openai env_down bn [] (Some cached_en))
       = Inr \<lparr>data = JObj [(''generated_at'', JStr ''2023-11-14 22:03 UTC''),
                            (''language'', JStr ''en''),
                            (''status'', JStr ''QUOTA_EXCEEDED''),
                            (''highlights'',
                               JArr [JObj [(''headline'', JStr ''H1''),
                                           (''category'', JStr ''world'')]])],
               sources = JArr [JObj [(''uri'', JStr ''https://a.example''),
                                     (''title'', JStr ''A'')]]\<rparr>
   \<and> store (fetchNewsUpdates_openai env_down bn [] (Some cached_en)) = Some cached_en"
  using stale_serving_override [of "Some cached_en" cached_en env_down cached_en_value bn "[]"]
  by (simp add: cached_nonempty parse_cached_en cached_en_fields env_down_simps configured_def
        read_fresh_cached_en acquire_primary_env_down acquire_gemini_env_down
        fetchOpenAIFallback_env_down quota_marked_def cached_en_value_def lookup_def
        QUOTA_EXCEEDED_def)

section \<open>The secondary provider\<close>

text \<open>
  Claim C5. In the revision with the secondary provider: when the freshness check does
  not serve, the primary attempt fails (a missing credential, a failed call, a text that
  does not parse, a failed extraction of the sources) and the secondary attempt succeeds
  with a value, the call resolves to that value, unchanged (so with the status the
  secondary provider gave), and to an empty list of sources; the slot then holds the
  serialised record of that value, an empty list of sources, the time of the write and
  the requested language.
\<close>

theorem secondary_fallback_success:
  assumes "check_cache E language storage = Missed storage1"
    and "isl (fst (acquire_gemini E (build_prompt E language previousHighlights)))"
    and "configured (OPENAI_API_KEY E)"
    and "fst (fetchOpenAIFallback E (build_prompt E language previousHighlights) language)
           = Inr openAIData"
  shows "returned (fetchNewsUpdates_openai E language previousHighlights storage)
           = Inr \<lparr>data = openAIData, sources = JArr []\<rparr>
       \<and> store (fetchNewsUpdates_openai E language previousHighlights storage)
           = Some (JSON_stringify E
                     (JObj [(''data'', openAIData), (''sources'', JArr []),
                            (''timestamp'', JNum (now_at_store E)),
                            (''lang'', JStr (lang_str language))]))"
  using assms
  by (auto simp: fetchNewsUpdates_openai_def primary_failed_def Let_def isl_def
        cache_record_def split: prod.split sum.split)

theorem secondary_fallback_success_witness:
  "check_cache env_secondary bn None = Missed None
   \<and> isl (fst (acquire_gemini env_secondary (build_prompt env_secondary bn [])))
   \<and> configured (OPENAI_API_KEY env_secondary)
   \<and> fst (fetchOpenAIFallback env_secondary (build_prompt env_secondary bn []) bn)
       = Inr secondary_value
   \<and> returned (fetchNewsUpdates_openai env_secondary bn [] None)
       = Inr \<lparr>data = secondary_value, sources = JArr []\<rparr>
   \<and> js_prop secondary_value ''status'' = JStr ''OK''
   \<and> store (fetchNewsUpdates_openai env_secondary bn [] None)
       = Some (json_stringify
                 (JObj [(''data'', secondary_value), (''sources'', JArr []),
                        (''timestamp'', JNum 1700000000750), (''lang'', JStr ''bn'')]))"
  using secondary_fallback_success [of env_secondary bn None None "[]" secondary_value]
  by (simp add: check_cache_def acquire_gemini_env_secondary fetchOpenAIFallback_env_secondary
        env_secondary_simps configured_def lang_str_def secondary_value_def lookup_def)

section \<open>The life of the cache record\<close>

lemma check_cache_cases:
  "(\<exists>p. check_cache E language storage = Served p \<and> \<not> undeserializable E storage)
   \<or> check_cache E language storage
       = Missed (if undeserializable E storage then None else storage)"
  by (auto simp: check_cache_def undeserializable_def read_fresh_def Let_def
        split: option.split sum.split)

lemma check_cache_undeserializable:
  "undeserializable E storage \<Longrightarrow> check_cache E language storage = Missed None"
  using check_cache_cases [of E language storage] by auto

lemma unparsable_undeserializable: "unparsable E storage \<Longrightarrow> undeserializable E storage"
  by (auto simp: unparsable_def undeserializable_def split: option.splits)

lemma serve_degraded_unparsable:
  "unparsable E storage \<Longrightarrow> serve_degraded E storage = serve_degraded E None"
  by (auto simp: unparsable_def serve_degraded_def read_stale_def split: option.splits)

lemma store_fetchNewsUpdates:
  "store (fetchNewsUpdates E language prev storage) =
     (case check_cache E language storage of
        Served p \<Rightarrow> storage
      | Missed storage1 \<Rightarrow>
          if \<not> configured (API_KEY E) then storage1
          else (case fst (acquire_primary E (build_prompt E language prev)) of
                  Inl e \<Rightarrow> storage1
                | Inr p \<Rightarrow> Some (JSON_stringify E (cache_record p (now_at_store E) language))))"
  by (simp add: fetchNewsUpdates_def split: cache_step.split prod.split sum.split)

lemma store_fetchNewsUpdates_openai:
  "store (fetchNewsUpdates_openai E language prev storage) =
     (case check_cache E language storage of
        Served p \<Rightarrow> storage
      | Missed storage1 \<Rightarrow>
          (case fst (acquire_gemini E (build_prompt E language prev)) of
             Inr p \<Rightarrow> Some (JSON_stringify E (cache_record p (now_at_store E) language))
           | Inl e \<Rightarrow>
               if \<not> configured (OPENAI_API_KEY E) then storage1
               else (case fst (fetchOpenAIFallback E (build_prompt E language prev) language) of
                       Inl e \<Rightarrow> storage1
                     | Inr d \<Rightarrow>
                         Some (JSON_stringify E
                                 (cache_record \<lparr>data = d, sources = JArr []\<rparr>
                                    (now_at_store E) language)))))"
proof (cases "check_cache E language storage")
  case (Served p)
  then show ?thesis by (simp add: fetchNewsUpdates_openai_def)
next
  case (Missed storage1)
  obtain r evs where ag: "acquire_gemini E (build_prompt E language prev) = (r, evs)"
    by (cases "acquire_gemini E (build_prompt E language prev)")
  obtain r2 evs2 where
    fo: "fetchOpenAIFallback E (build_prompt E language prev) language = (r2, evs2)"
    by (cases "fetchOpenAIFallback E (build_prompt E language prev) language")
  show ?thesis
    using Missed ag fo
    by (cases r; cases r2)
       (simp_all add: fetchNewsUpdates_openai_def primary_failed_def Let_def)
qed

lemma acquire_primary_success_events:
  "fst (acquire_primary E q) = Inr p \<Longrightarrow> snd (acquire_primary E q) = [CallPrimary q]"
  by (auto simp: acquire_primary_def split: sum.splits)

lemma acquire_gemini_needs_key:
  "\<not> configured (API_KEY E) \<Longrightarrow> isl (fst (acquire_gemini E q))"
  by (simp add: acquire_gemini_def)

lemma primary_failed_unparsable:
  assumes "unparsable E storage"
  shows "primary_failed E language q storage storage1 evs
           = primary_failed E language q None storage1 evs"
proof -
  have eq: "serve_degraded E storage = serve_degraded E None"
    using assms by (rule serve_degraded_unparsable)
  show ?thesis unfolding primary_failed_def eq by (rule refl)
qed

lemma primary_failed_effects:
  "store (primary_failed E language q storage storage1 evs)
     = store (primary_failed E language q storage' storage1 evs)
   \<and> events (primary_failed E language q storage storage1 evs)
     = events (primary_failed E language q storage' storage1 evs)"
proof -
  obtain r2 evs2 where fo: "fetchOpenAIFallback E q language = (r2, evs2)"
    by (cases "fetchOpenAIFallback E q language")
  show ?thesis
    using fo by (cases r2) (simp_all add: primary_failed_def Let_def)
qed

lemma check_cache_empty: "check_cache E language None = Missed None"
  by (simp add: check_cache_def)

lemma fetchOpenAIFallback_needs_key:
  "\<not> configured (OPENAI_API_KEY E) \<Longrightarrow> isl (fst (fetchOpenAIFallback E q language))"
  by (simp add: fetchOpenAIFallback_def configured_def split: option.splits)

lemma written_fetchNewsUpdates:
  "store (fetchNewsUpdates E language prev storage)
     = (if undeserializable E storage then None else storage)
   \<or> (\<exists>p. fst (acquire_primary E (build_prompt E language prev)) = Inr p
          \<and> fetchNewsUpdates E language prev storage =
              \<lparr>returned = Inr p,
               store = Some (JSON_stringify E (cache_record p (now_at_store E) language)),
               events = [CallPrimary (build_prompt E language prev)]\<rparr>)"
proof -
  consider p where "check_cache E language storage = Served p" "\<not> undeserializable E storage"
    | "check_cache E language storage
       = Missed (if undeserializable E storage then None else storage)"
    using check_cache_cases [of E language storage] by blast
  then show ?thesis
  proof cases
    case 1
    then show ?thesis by (simp add: store_fetchNewsUpdates)
  next
    case 2
    show ?thesis
    proof (cases "acquire_primary E (build_prompt E language prev)")
      case (Pair r evs)
      show ?thesis
      proof (cases r)
        case (Inl e)
        with 2 Pair show ?thesis by (simp add: store_fetchNewsUpdates)
      next
        case (Inr p)
        with Pair have "evs = [CallPrimary (build_prompt E language prev)]"
          using acquire_primary_success_events [of E "build_prompt E language prev" p] by simp
        with 2 Pair Inr show ?thesis
          by (cases "configured (API_KEY E)") (simp_all add: fetchNewsUpdates_def)
      qed
    qed
  qed
qed

lemma written_fetchNewsUpdates_openai:
  "store (fetchNewsUpdates_openai E language prev storage)
     = (if undeserializable E storage then None else storage)
   \<or> (\<exists>p. fst (acquire_gemini E (build_prompt E language prev)) = Inr p
          \<and> fetchNewsUpdates_openai E language prev storage =
              \<lparr>returned = Inr p,
               store = Some (JSON_stringify E (cache_record p (now_at_store E) language)),
               events = [CallPrimary (build_prompt E language prev)]\<rparr>)
   \<or> (\<exists>d. isl (fst (acquire_gemini E (build_prompt E language prev)))
          \<and> fst (fetchOpenAIFallback E (build_prompt E language prev) language) = Inr d
          \<and> returned (fetchNewsUpdates_openai E language prev storage)
              = Inr \<lparr>data = d, sources = JArr []\<rparr>
          \<and> store (fetchNewsUpdates_openai E language prev storage)
              = Some (JSON_stringify E
                        (cache_record \<lparr>data = d, sources = JArr []\<rparr> (now_at_store E) language)))"
proof -
  consider p where "check_cache E language storage = Served p" "\<not> undeserializable E storage"
    | "check_cache E language storage
       = Missed (if undeserializable E storage then None else storage)"
    using check_cache_cases [of E language storage] by blast
  then show ?thesis
  proof cases
    case 1
    then show ?thesis by (simp add: store_fetchNewsUpdates_openai)
  next
    case 2
    show ?thesis
    proof (cases "acquire_gemini E (build_prompt E language prev)")
      case (Pair r evs)
      show ?thesis
      proof (cases r)
        case (Inr p)
        with Pair have "evs = [CallPrimary (build_prompt E language prev)]"
          using acquire_gemini_events [of E "build_prompt E language prev"]
            acquire_gemini_needs_key [of E "build_prompt E language prev"]
          by (auto simp: isl_def)
        with 2 Pair Inr show ?thesis
          by (simp add: fetchNewsUpdates_openai_def)
      next
        case (Inl e)
        show ?thesis
        proof (cases "fetchOpenAIFallback E (build_prompt E language prev) language")
          case (Pair r2 evs2)
          show ?thesis
          proof (cases r2)
            case (Inl e2)
            with 2 \<open>acquire_gemini E (build_prompt E language prev) = (r, evs)\<close> \<open>r = Inl e\<close> Pair
            show ?thesis by (simp add: store_fetchNewsUpdates_openai)
          next
            case (Inr d)
            with Pair have k: "configured (OPENAI_API_KEY E)"
              using fetchOpenAIFallback_needs_key [of E "build_prompt E language prev" language]
              by auto
            with 2 \<open>acquire_gemini E (build_prompt E language prev) = (r, evs)\<close> \<open>r = Inl e\<close>
              Pair Inr
            show ?thesis
              by (simp add: fetchNewsUpdates_openai_def primary_failed_def Let_def)
          qed
        qed
      qed
    qed
  qed
qed

lemma degraded_fetchNewsUpdates:
  assumes "\<not> configured (API_KEY E)
           \<or> isl (fst (acquire_primary E (build_prompt E language prev)))"
  shows "store (fetchNewsUpdates E language prev storage)
           = (if undeserializable E storage then None else storage)"
  using assms check_cache_cases [of E language storage]
  by (auto simp: store_fetchNewsUpdates isl_def)

lemma degraded_fetchNewsUpdates_openai:
  assumes "isl (fst (acquire_gemini E (build_prompt E language prev)))"
    and "isl (fst (fetchOpenAIFallback E (build_prompt E language prev) language))"
  shows "store (fetchNewsUpdates_openai E language prev storage)
           = (if undeserializable E storage then None else storage)"
  using assms check_cache_cases [of E language storage]
  by (auto simp: store_fetchNewsUpdates_openai isl_def)

lemma miss_fetchNewsUpdates:
  assumes "undeserializable E storage"
  shows "fetchNewsUpdates E language prev storage = fetchNewsUpdates E language prev None"
  using assms check_cache_undeserializable [of E storage language]
  by (simp add: fetchNewsUpdates_def check_cache_empty)

lemma miss_fetchNewsUpdates_openai:
  assumes "unparsable E storage"
  shows "fetchNewsUpdates_openai E language prev storage
           = fetchNewsUpdates_openai E language prev None"
proof -
  obtain r evs where ag: "acquire_gemini E (build_prompt E language prev) = (r, evs)"
    by (cases "acquire_gemini E (build_prompt E language prev)")
  have "undeserializable E storage"
    using assms by (rule unparsable_undeserializable)
  then show ?thesis
    using ag check_cache_undeserializable [of E storage language]
      primary_failed_unparsable [OF assms, of language "build_prompt E language prev" None evs]
    by (cases r) (simp_all add: fetchNewsUpdates_openai_def check_cache_empty)
qed

lemma miss_effects_fetchNewsUpdates_openai:
  assumes "undeserializable E storage"
  shows "store (fetchNewsUpdates_openai E language prev storage)
           = store (fetchNewsUpdates_openai E language prev None)
       \<and> events (fetchNewsUpdates_openai E language prev storage)
           = events (fetchNewsUpdates_openai E language prev None)"
proof -
  obtain r evs where ag: "acquire_gemini E (build_prompt E language prev) = (r, evs)"
    by (cases "acquire_gemini E (build_prompt E language prev)")
  show ?thesis
    using ag check_cache_undeserializable [OF assms, of language]
      primary_failed_effects [of E language "build_prompt E language prev" storage None evs None]
    by (cases r) (simp_all add: fetchNewsUpdates_openai_def check_cache_empty)
qed

lemma deleted_fetchNewsUpdates:
  assumes "storage \<noteq> None" and "store (fetchNewsUpdates E language prev storage) = None"
  shows "undeserializable E storage"
  using assms written_fetchNewsUpdates [of E language prev storage]
  by (auto split: if_splits)

lemma deleted_fetchNewsUpdates_openai:
  assumes "storage \<noteq> None" and "store (fetchNewsUpdates_openai E language prev storage) = None"
  shows "undeserializable E storage"
  using assms written_fetchNewsUpdates_openai [of E language prev storage]
  by (auto split: if_splits)

text \<open>
  Claim C8. In both revisions:
  \<^item> the slot after the call is the slot before it, with a record that cannot be read
    removed, unless a provider attempt succeeded; then it holds the serialised record
    of exactly what the call resolves to, with the time of the write and the requested
    language (after the primary provider, the call did nothing but call it);
  \<^item> when the credential is missing or the primary attempt fails (and, with a secondary
    provider, that attempt fails as well), which covers the configuration error, the
    stale record and the static fallback, nothing is written;
  \<^item> a record is removed only if the first \<^verbatim>\<open>try\<close> block cannot read it, and the failure
    is not propagated: the call then behaves in every respect as on an empty slot. In
    the revision with the secondary provider this holds for a record that does not
    parse; a record that parses but whose timestamp cannot be converted is removed
    and missed in the same way (same slot, same calls), yet the emergency branch, which
    reads the text fetched at the beginning, can still serve it.
\<close>

theorem cache_record_lifecycle:
  "(store (fetchNewsUpdates E language prev storage)
       = (if undeserializable E storage then None else storage)
     \<or> (\<exists>p. fst (acquire_primary E (build_prompt E language prev)) = Inr p
            \<and> fetchNewsUpdates E language prev storage =
                \<lparr>returned = Inr p,
                 store = Some (JSON_stringify E (cache_record p (now_at_store E) language)),
                 events = [CallPrimary (build_prompt E language prev)]\<rparr>))
   \<and> (store (fetchNewsUpdates_openai E language prev storage)
       = (if undeserializable E storage then None else storage)
     \<or> (\<exists>p. fst (acquire_gemini E (build_prompt E language prev)) = Inr p
            \<and> fetchNewsUpdates_openai E language prev storage =
                \<lparr>returned = Inr p,
                 store = Some (JSON_stringify E (cache_record p (now_at_store E) language)),
                 events = [CallPrimary (build_prompt E language prev)]\<rparr>)
     \<or> (\<exists>d. isl (fst (acquire_gemini E (build_prompt E language prev)))
            \<and> fst (fetchOpenAIFallback E (build_prompt E language prev) language) = Inr d
            \<and> returned (fetchNewsUpdates_openai E language prev storage)
                = Inr \<lparr>data = d, sources = JArr []\<rparr>
            \<and> store (fetchNewsUpdates_openai E language prev storage)
                = Some (JSON_stringify E
                          (cache_record \<lparr>data = d, sources = JArr []\<rparr> (now_at_store E)
                             language))))
   \<and> (\<not> configured (API_KEY E)
        \<or> isl (fst (acquire_primary E (build_prompt E language prev)))
      \<longrightarrow> store (fetchNewsUpdates E language prev storage)
            = (if undeserializable E storage then None else storage))
   \<and> (isl (fst (acquire_gemini E (build_prompt E language prev)))
        \<and> isl (fst (fetchOpenAIFallback E (build_prompt E language prev) language))
      \<longrightarrow> store (fetchNewsUpdates_openai E language prev storage)
            = (if undeserializable E storage then None else storage))
   \<and> (storage \<noteq> None \<and> store (fetchNewsUpdates E language prev storage) = None
      \<longrightarrow> undeserializable E storage)
   \<and> (storage \<noteq> None \<and> store (fetchNewsUpdates_openai E language prev storage) = None
      \<longrightarrow> undeserializable E storage)
   \<and> (undeserializable E storage
      \<longrightarrow> fetchNewsUpdates E language prev storage = fetchNewsUpdates E language prev None
          \<and> store (fetchNewsUpdates_openai E language prev storage)
              = store (fetchNewsUpdates_openai E language prev None)
          \<and> events (fetchNewsUpdates_openai E language prev storage)
              = events (fetchNewsUpdates_openai E language prev None))
   \<and> (unparsable E storage
      \<longrightarrow> fetchNewsUpdates_openai E language prev storage
            = fetchNewsUpdates_openai E language prev None)"
proof (intro conjI)
  show "store (fetchNewsUpdates E language prev storage)
       = (if undeserializable E storage then None else storage)
     \<or> (\<exists>p. fst (acquire_primary E (build_prompt E language prev)) = Inr p
            \<and> fetchNewsUpdates E language prev storage =
                \<lparr>returned = Inr p,
                 store = Some (JSON_stringify E (cache_record p (now_at_store E) language)),
                 events = [CallPrimary (build_prompt E language prev)]\<rparr>)"
    by (rule written_fetchNewsUpdates)
  show "store (fetchNewsUpdates_openai E language prev storage)
       = (if undeserializable E storage then None else storage)
     \<or> (\<exists>p. fst (acquire_gemini E (build_prompt E language prev)) = Inr p
            \<and> fetchNewsUpdates_openai E language prev storage =
                \<lparr>returned = Inr p,
                 store = Some (JSON_stringify E (cache_record p (now_at_store E) language)),
                 events = [CallPrimary (build_prompt E language prev)]\<rparr>)
     \<or> (\<exists>d. isl (fst (acquire_gemini E (build_prompt E language prev)))
            \<and> fst (fetchOpenAIFallback E (build_prompt E language prev) language) = Inr d
            \<and> returned (fetchNewsUpdates_openai E language prev storage)
                = Inr \<lparr>data = d, sources = JArr []\<rparr>
            \<and> store (fetchNewsUpdates_openai E language prev storage)
                = Some (JSON_stringify E
                          (cache_record \<lparr>data = d, sources = JArr []\<rparr> (now_at_store E)
                             language)))"
    by (rule written_fetchNewsUpdates_openai)
  show "\<not> configured (API_KEY E)
        \<or> isl (fst (acquire_primary E (build_prompt E language prev)))
      \<longrightarrow> store (fetchNewsUpdates E language prev storage)
            = (if undeserializable E storage then None else storage)"
    using degraded_fetchNewsUpdates [of E language prev storage] by blast
  show "isl (fst (acquire_gemini E (build_prompt E language prev)))
        \<and> isl (fst (fetchOpenAIFallback E (build_prompt E language prev) language))
      \<longrightarrow> store (fetchNewsUpdates_openai E language prev storage)
            = (if undeserializable E storage then None else storage)"
    using degraded_fetchNewsUpdates_openai [of E language prev storage] by blast
  show "storage \<noteq> None \<and> store (fetchNewsUpdates E language prev storage) = None
      \<longrightarrow> undeserializable E storage"
    using deleted_fetchNewsUpdates [of storage E language prev] by blast
  show "storage \<noteq> None \<and> store (fetchNewsUpdates_openai E language prev storage) = None
      \<longrightarrow> undeserializable E storage"
    using deleted_fetchNewsUpdates_openai [of storage E language prev] by blast
  show "undeserializable E storage
      \<longrightarrow> fetchNewsUpdates E language prev storage = fetchNewsUpdates E language prev None
          \<and> store (fetchNewsUpdates_openai E language prev storage)
              = store (fetchNewsUpdates_openai E language prev None)
          \<and> events (fetchNewsUpdates_openai E language prev storage)
              = events (fetchNewsUpdates_openai E language prev None)"
    using miss_fetchNewsUpdates [of E storage language prev]
      miss_effects_fetchNewsUpdates_openai [of E storage language prev] by blast
  show "unparsable E storage
      \<longrightarrow> fetchNewsUpdates_openai E language prev storage
            = fetchNewsUpdates_openai E language prev None"
    using miss_fetchNewsUpdates_openai [of E storage language prev] by blast
qed

lemma undeserializable_examples:
  "undeserializable env_down (Some cached_garbage)"
  "\<not> undeserializable env_down (Some cached_en)"
  "unparsable env_down (Some cached_garbage)"
  by (simp_all add: undeserializable_def unparsable_def env_down_simps cached_nonempty
        parse_cached_garbage parse_cached_en cached_en_fields)

theorem cache_record_lifecycle_witness:
  "fetchNewsUpdates env_primary en [] None =
     \<lparr>returned = Inr \<lparr>data = primary_value, sources = JArr [primary_source]\<rparr>,
      store = Some (json_stringify
                      (JObj [(''data'', primary_value), (''sources'', JArr [primary_source]),
                             (''timestamp'', JNum 1700000000750), (''lang'', JStr ''en'')])),
      events = [CallPrimary (build_prompt env_primary en [])]\<rparr>
   \<and> isl (fst (acquire_primary env_down (build_prompt env_down bn [])))
   \<and> isl (fst (acquire_gemini env_down (build_prompt env_down bn [])))
   \<and> isl (fst (fetchOpenAIFallback env_down (build_prompt env_down bn []) bn))
   \<and> store (fetchNewsUpdates env_down bn [] (Some cached_en)) = Some cached_en
   \<and> store (fetchNewsUpdates_openai env_down bn [] (Some cached_en)) = Some cached_en
   \<and> undeserializable env_down (Some cached_garbage)
   \<and> unparsable env_down (Some cached_garbage)
   \<and> store (fetchNewsUpdates env_down en [] (Some cached_garbage)) = None
   \<and> store (fetchNewsUpdates_openai env_down en [] (Some cached_garbage)) = None
   \<and> fetchNewsUpdates env_down en [] (Some cached_garbage) = fetchNewsUpdates env_down en [] None
   \<and> fetchNewsUpdates_openai env_down en [] (Some cached_garbage)
       = fetchNewsUpdates_openai env_down en [] None"
proof -
  note degraded = cache_record_lifecycle [of env_down bn "[]" "Some cached_en"]
  note corrupt = cache_record_lifecycle [of env_down en "[]" "Some cached_garbage"]
  have f: "isl (fst (acquire_primary env_down (build_prompt env_down bn [])))"
    "isl (fst (acquire_gemini env_down (build_prompt env_down bn [])))"
    "isl (fst (fetchOpenAIFallback env_down (build_prompt env_down bn []) bn))"
    "isl (fst (acquire_primary env_down (build_prompt env_down en [])))"
    "isl (fst (acquire_gemini env_down (build_prompt env_down en [])))"
    "isl (fst (fetchOpenAIFallback env_down (build_prompt env_down en []) en))"
    by (simp_all add: acquire_primary_env_down acquire_gemini_env_down
          fetchOpenAIFallback_env_down)
  have a: "fetchNewsUpdates env_primary en [] None =
     \<lparr>returned = Inr \<lparr>data = primary_value, sources = JArr [primary_source]\<rparr>,
      store = Some (json_stringify
                      (JObj [(''data'', primary_value), (''sources'', JArr [primary_source]),
                             (''timestamp'', JNum 1700000000750), (''lang'', JStr ''en'')])),
      events = [CallPrimary (build_prompt env_primary en [])]\<rparr>"
    by (simp add: fetchNewsUpdates_def check_cache_empty configured_def
          acquire_primary_env_primary env_primary_simps cache_record_def lang_str_def
          del: json_stringify.simps)
  have b: "store (fetchNewsUpdates env_down bn [] (Some cached_en)) = Some cached_en"
    "store (fetchNewsUpdates_openai env_down bn [] (Some cached_en)) = Some cached_en"
    using degraded [THEN conjunct2, THEN conjunct2, THEN conjunct1]
      degraded [THEN conjunct2, THEN conjunct2, THEN conjunct2, THEN conjunct1] f
    by (simp_all add: undeserializable_examples)
  have c: "store (fetchNewsUpdates env_down en [] (Some cached_garbage)) = None"
    "store (fetchNewsUpdates_openai env_down en [] (Some cached_garbage)) = None"
    using corrupt [THEN conjunct2, THEN conjunct2, THEN conjunct1]
      corrupt [THEN conjunct2, THEN conjunct2, THEN conjunct2, THEN conjunct1] f
    by (simp_all add: undeserializable_examples)
  have d: "fetchNewsUpdates env_down en [] (Some cached_garbage)
             = fetchNewsUpdates env_down en [] None"
    "fetchNewsUpdates_openai env_down en [] (Some cached_garbage)
             = fetchNewsUpdates_openai env_down en [] None"
    using corrupt [THEN conjunct2, THEN conjunct2, THEN conjunct2, THEN conjunct2,
            THEN conjunct2, THEN conjunct2] undeserializable_examples(1,3)
    by simp_all
  show ?thesis
    using a b c d f(1-3) undeserializable_examples(1,3) by (intro conjI) simp_all
qed

section \<open>The degraded payloads are fixed\<close>

text \<open>
  Claim C10. For every requested language, the response of the configuration path and
  the static fallback carry \<^verbatim>\<open>language: 'en'\<close> and the \<^verbatim>\<open>generated_at\<close> of the moment the
  module was loaded; neither depends on the requested language or on the clock of the
  call.
\<close>

theorem degraded_payloads_fixed:
  "(\<not> configured (API_KEY E) \<and> check_cache E language storage = Missed storage1
      \<longrightarrow> returned (fetchNewsUpdates E language previousHighlights storage)
            = Inr \<lparr>data = configErrorData E, sources = JArr []\<rparr>)
   \<and> (configured (API_KEY E)
        \<and> isl (fst (acquire_primary E (build_prompt E language previousHighlights)))
        \<and> storage = None
      \<longrightarrow> returned (fetchNewsUpdates E language previousHighlights storage)
            = Inr \<lparr>data = FALLBACK_DATA E, sources = JArr []\<rparr>)
   \<and> (isl (fst (acquire_gemini E (build_prompt E language previousHighlights)))
        \<and> isl (fst (fetchOpenAIFallback E (build_prompt E language previousHighlights) language))
        \<and> storage = None
      \<longrightarrow> returned (fetchNewsUpdates_openai E language previousHighlights storage)
            = Inr \<lparr>data = FALLBACK_DATA E, sources = JArr []\<rparr>)
   \<and> js_prop (configErrorData E) ''language'' = JStr ''en''
   \<and> js_prop (configErrorData E) ''generated_at'' = JStr (iso_module_load E)
   \<and> js_prop (FALLBACK_DATA E) ''language'' = JStr ''en''
   \<and> js_prop (FALLBACK_DATA E) ''generated_at'' = JStr (iso_module_load E)
   \<and> configErrorData (E\<lparr>now_at_check := t1, now_at_store := t2, iso_now := s\<rparr>)
       = configErrorData E
   \<and> FALLBACK_DATA (E\<lparr>now_at_check := t1, now_at_store := t2, iso_now := s\<rparr>)
       = FALLBACK_DATA E"
proof (intro conjI)
  show "\<not> configured (API_KEY E) \<and> check_cache E language storage = Missed storage1
      \<longrightarrow> returned (fetchNewsUpdates E language previousHighlights storage)
            = Inr \<lparr>data = configErrorData E, sources = JArr []\<rparr>"
    by (simp add: fetchNewsUpdates_def)
  show "configured (API_KEY E)
        \<and> isl (fst (acquire_primary E (build_prompt E language previousHighlights)))
        \<and> storage = None
      \<longrightarrow> returned (fetchNewsUpdates E language previousHighlights storage)
            = Inr \<lparr>data = FALLBACK_DATA E, sources = JArr []\<rparr>"
    by (auto simp: fetchNewsUpdates_def check_cache_empty serve_degraded_def
          static_fallback_def isl_def split: prod.split sum.split)
  show "isl (fst (acquire_gemini E (build_prompt E language previousHighlights)))
        \<and> isl (fst (fetchOpenAIFallback E (build_prompt E language previousHighlights) language))
        \<and> storage = None
      \<longrightarrow> returned (fetchNewsUpdates_openai E language previousHighlights storage)
            = Inr \<lparr>data = FALLBACK_DATA E, sources = JArr []\<rparr>"
    by (auto simp: fetchNewsUpdates_openai_def primary_failed_def Let_def check_cache_empty
          serve_degraded_def static_fallback_def isl_def split: prod.split sum.split)
qed (simp_all add: configErrorData_eq lookup_def static_fallback_fields
       configErrorData_def FALLBACK_DATA_def)

theorem degraded_payloads_fixed_witness:
  "\<not> configured (API_KEY env_unconfigured)
   \<and> check_cache env_unconfigured bn None = Missed None
   \<and> returned (fetchNewsUpdates env_unconfigured bn [] None)
       = Inr \<lparr>data = configErrorData env_unconfigured, sources = JArr []\<rparr>
   \<and> js_prop (configErrorData env_unconfigured) ''language'' = JStr ''en''
   \<and> js_prop (configErrorData env_unconfigured) ''generated_at''
       = JStr ''2023-11-14T22:00:00.000Z''
   \<and> configured (API_KEY env_down)
   \<and> isl (fst (acquire_primary env_down (build_prompt env_down bn [])))
   \<and> returned (fetchNewsUpdates env_down bn [] None)
       = Inr \<lparr>data = FALLBACK_DATA env_down, sources = JArr []\<rparr>
   \<and> isl (fst (acquire_gemini env_down (build_prompt env_down bn [])))
   \<and> isl (fst (fetchOpenAIFallback env_down (build_prompt env_down bn []) bn))
   \<and> returned (fetchNewsUpdates_openai env_down bn [] None)
       = Inr \<lparr>data = FALLBACK_DATA env_down, sources = JArr []\<rparr>
   \<and> js_prop (FALLBACK_DATA env_down) ''language'' = JStr ''en''
   \<and> js_prop (FALLBACK_DATA env_down) ''generated_at'' = JStr ''2023-11-14T22:00:00.000Z''
   \<and> iso_now env_down = ''2023-11-14T22:13:20.000Z''"
  using degraded_payloads_fixed [of env_unconfigured bn None None "[]"]
        degraded_payloads_fixed [of env_down bn None None "[]"]
  by (simp add: env_unconfigured_def env_down_simps configured_def check_cache_empty
        acquire_primary_env_down acquire_gemini_env_down fetchOpenAIFallback_env_down)

section \<open>The status resolver\<close>

lemma resolve_data_no_new_update:
  assumes "js_prop d ''status'' = JStr ''NO NEW UPDATE''"
  shows "resolve_data prev_data d =
           Inr (if truthy prev_data
                then JObj (obj_set (obj_set (own_enumerable prev_data) ''generated_at''
                                      (js_prop d ''generated_at''))
                             ''status'' (JStr ''NO NEW UPDATE''))
                else d)"
proof -
  have "\<not> nullish d"
    using assms by (cases d) simp_all
  with assms show ?thesis
    by (simp add: resolve_data_def js_get_def QUOTA_EXCEEDED_def)
qed

text \<open>
  Claim C2, as the code has it. Let the provider's response have the status
  \<^verbatim>\<open>'NO NEW UPDATE'\<close> (and let the sources be an array, as the service returns). The
  reference \<^verbatim>\<open>previousHighlightsRef\<close> is left as it is. If the application state holds
  data, the new state's data is \<^verbatim>\<open>{ ...prev.data, generated_at, status }\<close> with
  \<^verbatim>\<open>generated_at\<close> and \<^verbatim>\<open>status\<close> of the response: its highlights are those of the data
  shown so far, whatever highlights the response carries, and they are the previous
  highlights \<open>H\<close> whenever the data shown so far has them. If the state holds no data
  yet, the response is delivered as it is, with its own highlights.
\<close>

theorem no_new_update_keeps_displayed:
  assumes "js_prop (data p) ''status'' = JStr ''NO NEW UPDATE''" and "sources p = JArr srcs"
  shows "\<exists>s'. loadNews_update s2n date p prev H = (Inr s', H)
           \<and> (truthy (state_data prev) \<longrightarrow>
                state_data s' =
                  JObj (obj_set (obj_set (own_enumerable (state_data prev)) ''generated_at''
                                   (js_prop (data p) ''generated_at''))
                          ''status'' (JStr ''NO NEW UPDATE''))
                \<and> js_prop (state_data s') ''generated_at'' = js_prop (data p) ''generated_at''
                \<and> js_prop (state_data s') ''status'' = JStr ''NO NEW UPDATE''
                \<and> (\<forall>fs. state_data prev = JObj fs
                       \<longrightarrow> js_prop (state_data s') ''highlights'' = lookup fs ''highlights'')
                \<and> (\<forall>fs. state_data prev = JObj fs \<and> lookup fs ''highlights'' = H
                       \<longrightarrow> js_prop (state_data s') ''highlights'' = H))
           \<and> (\<not> truthy (state_data prev) \<longrightarrow> state_data s' = data p)"
proof -
  let ?merged = "JObj (obj_set (obj_set (own_enumerable (state_data prev)) ''generated_at''
                                   (js_prop (data p) ''generated_at''))
                          ''status'' (JStr ''NO NEW UPDATE''))"
  let ?new = "if truthy (state_data prev) then ?merged else data p"
  let ?s = "\<lparr>state_data = ?new, loading = False, error_message = None,
             lastUpdated = Some date,
             state_sources = (if srcs \<noteq> [] then sources p else state_sources prev)\<rparr>"
  have run: "loadNews_update s2n date p prev H = (Inr ?s, H)"
    using assms resolve_data_no_new_update [of "data p" "state_data prev"]
    by (simp add: loadNews_update_def js_get_def)
  have m1: "js_prop ?merged ''generated_at'' = js_prop (data p) ''generated_at''"
    by (simp add: lookup_obj_set)
  have m2: "js_prop ?merged ''status'' = JStr ''NO NEW UPDATE''"
    by (simp add: lookup_obj_set)
  have m3: "js_prop ?merged ''highlights'' = lookup fs ''highlights''"
    if "state_data prev = JObj fs" for fs
    using that by (simp add: lookup_obj_set)
  show ?thesis
    using run m1 m2 m3 by (intro exI [of _ ?s]) auto
qed

theorem no_new_update_keeps_displayed_witness:
  "js_prop (data echo_response) ''status'' = JStr ''NO NEW UPDATE''
   \<and> sources echo_response = JArr []
   \<and> truthy (state_data archive_state)
   \<and> (\<exists>s'. loadNews_update string_to_number 1700000300000 echo_response archive_state (JArr [])
              = (Inr s', JArr [])
          \<and> js_prop (state_data s') ''generated_at'' = JStr ''2023-11-14 22:13 UTC''
          \<and> js_prop (state_data s') ''status'' = JStr ''NO NEW UPDATE''
          \<and> js_prop (state_data s') ''highlights'' = JArr fallback_highlights)
   \<and> \<not> truthy (state_data initial_state)
   \<and> (\<exists>s'. loadNews_update string_to_number 1700000300000 echo_response initial_state (JArr [])
              = (Inr s', JArr [])
          \<and> state_data s' = data echo_response)"
proof -
  have h: "js_prop (data echo_response) ''status'' = JStr ''NO NEW UPDATE''"
    "sources echo_response = JArr []"
    "js_prop (data echo_response) ''generated_at'' = JStr ''2023-11-14 22:13 UTC''"
    by (simp_all add: echo_response_def lookup_def)
  have a: "truthy (state_data archive_state)"
    "state_data archive_state =
       JObj [(''generated_at'', JStr (iso_module_load env_down)), (''language'', JStr ''en''),
             (''status'', JStr ''QUOTA_EXCEEDED''), (''highlights'', JArr fallback_highlights)]"
    by (simp_all add: archive_state_def FALLBACK_DATA_def)
  have i: "\<not> truthy (state_data initial_state)"
    by (simp add: initial_state_def)
  from no_new_update_keeps_displayed [OF h(1,2), of string_to_number 1700000300000
         archive_state "JArr []"]
  obtain s1 where s1:
    "loadNews_update string_to_number 1700000300000 echo_response archive_state (JArr [])
       = (Inr s1, JArr [])"
    "js_prop (state_data s1) ''generated_at'' = JStr ''2023-11-14 22:13 UTC''"
    "js_prop (state_data s1) ''status'' = JStr ''NO NEW UPDATE''"
    "js_prop (state_data s1) ''highlights'' = JArr fallback_highlights"
    using a h(3) by (auto simp: lookup_def)
  from no_new_update_keeps_displayed [OF h(1,2), of string_to_number 1700000300000
         initial_state "JArr []"]
  obtain s2 where s2:
    "loadNews_update string_to_number 1700000300000 echo_response initial_state (JArr [])
       = (Inr s2, JArr [])"
    "state_data s2 = data echo_response"
    using i by auto
  show ?thesis
    using h(1,2) a(1) i s1 s2 by blast
qed

text \<open>
  The claim as the specification states it: the previous highlights \<open>H\<close> are empty, the
  response has the status \<^verbatim>\<open>'NO NEW UPDATE'\<close> and other highlights, so the delivered
  highlights should be \<open>H\<close>. On the first load the response's own highlights are
  delivered; while the static fallback is shown, the archival highlights are.
\<close>

theorem no_new_update_first_load_counterexample:
  "js_prop (data echo_response) ''status'' = JStr ''NO NEW UPDATE''
   \<and> js_prop (data echo_response) ''highlights'' \<noteq> JArr []
   \<and> loadNews_update string_to_number 1700000300000 echo_response initial_state (JArr [])
       = (Inr \<lparr>state_data = data echo_response, loading = False, error_message = None,
               lastUpdated = Some 1700000300000, state_sources = JArr []\<rparr>,
          JArr [])
   \<and> (case fst (loadNews_update string_to_number 1700000300000 echo_response archive_state
                   (JArr [])) of
         Inl e \<Rightarrow> False
       | Inr s \<Rightarrow> js_prop (state_data s) ''highlights'' = JArr fallback_highlights
                  \<and> js_prop (state_data s) ''highlights'' \<noteq> JArr [])"
  by (simp add: loadNews_update_def resolve_data_def js_get_def echo_response_def lookup_def
        initial_state_def archive_state_def FALLBACK_DATA_def QUOTA_EXCEEDED_def
        fallback_highlights_def)

section \<open>The normaliser\<close>

lemma run_ge2: "2 \<le> length (takeWhile (\<lambda>c. c = b) cs) \<Longrightarrow> take 2 cs = [b, b]"
  by (cases cs; cases "tl cs") (auto split: if_splits)

lemma prefix3_run: "take 3 xs = [b, b, b] \<Longrightarrow> 3 \<le> length (takeWhile (\<lambda>c. c = b) xs)"
  by (cases xs; cases "tl xs"; cases "tl (tl xs)") (auto split: if_splits)

lemma remove_all_run:
  "length (takeWhile (\<lambda>c. c = b) (remove_all [b, b, b] s))
     = length (takeWhile (\<lambda>c. c = b) s) mod 3"
proof (induction "[b, b, b]" s rule: remove_all.induct)
  case 1
  show ?case by simp
next
  case (2 c cs)
  show ?case
  proof (cases "take (length [b, b, b]) (c # cs) = [b, b, b]")
    case True
    then obtain rest where cs: "c # cs = b # b # b # rest"
      by (cases cs; cases "tl cs") (auto split: if_splits)
    with True 2(1) have "length (takeWhile (\<lambda>c. c = b) (remove_all [b, b, b] rest))
                        = length (takeWhile (\<lambda>c. c = b) rest) mod 3"
      by simp
    with True cs show ?thesis by simp
  next
    case False
    with 2(2) have ih: "length (takeWhile (\<lambda>c. c = b) (remove_all [b, b, b] cs))
                        = length (takeWhile (\<lambda>c. c = b) cs) mod 3"
      by simp
    show ?thesis
    proof (cases "c = b")
      case True
      have "length (takeWhile (\<lambda>c. c = b) cs) < 2"
      proof (rule ccontr)
        assume "\<not> length (takeWhile (\<lambda>c. c = b) cs) < 2"
        then have "take 2 cs = [b, b]" using run_ge2 [of b cs] by simp
        with True False show False by (cases cs; cases "tl cs") auto
      qed
      with True False ih show ?thesis by auto
    next
      case c: False
      with False show ?thesis by simp
    qed
  qed
qed

lemma remove_all_no_triple: "\<not> sublist [b, b, b] (remove_all [b, b, b] s)"
proof (induction "[b, b, b]" s rule: remove_all.induct)
  case 1
  show ?case by simp
next
  case (2 c cs)
  show ?case
  proof (cases "take (length [b, b, b]) (c # cs) = [b, b, b]")
    case True
    with 2(1) show ?thesis by simp
  next
    case False
    with 2(2) have ih: "\<not> sublist [b, b, b] (remove_all [b, b, b] cs)" by simp
    have eq: "remove_all [b, b, b] (c # cs) = c # remove_all [b, b, b] cs"
      using False by auto
    have "\<not> prefix [b, b, b] (c # remove_all [b, b, b] cs)"
    proof
      assume "prefix [b, b, b] (c # remove_all [b, b, b] cs)"
      then have "take 3 (c # remove_all [b, b, b] cs) = [b, b, b]"
        by (auto simp: prefix_def)
      then have "3 \<le> length (takeWhile (\<lambda>c. c = b) (remove_all [b, b, b] (c # cs)))"
        using prefix3_run [of "c # remove_all [b, b, b] cs" b] eq by simp
      then show False using remove_all_run [of b "c # cs"] by simp
    qed
    with ih eq show ?thesis by (simp add: sublist_Cons_right)
  qed
qed

lemma sublist_trim: "sublist (trim s) s"
proof -
  have "suffix (dropWhile js_space s) s" by (rule suffix_dropWhile)
  moreover have "prefix (trim s) (dropWhile js_space s)"
    using suffix_dropWhile [of js_space "rev (dropWhile js_space s)"]
    by (simp add: trim_def suffix_to_prefix)
  ultimately show ?thesis
    by (meson prefix_imp_sublist suffix_imp_sublist sublist_order.order.trans)
qed

lemma clean_text_no_fence: "\<not> sublist fence (clean_text t)"
proof
  assume "sublist fence (clean_text t)"
  then have "sublist fence (remove_all fence (remove_all fence_json t))"
    using sublist_trim [of "remove_all fence (remove_all fence_json t)"]
    by (metis clean_text_def sublist_order.order.trans)
  then show False
    using remove_all_no_triple [of "CHR 0x60" "remove_all fence_json t"]
    by (simp add: fence_def)
qed

lemma trim_ends:
  "trim s = [] \<or> (\<not> js_space (hd (trim s)) \<and> \<not> js_space (last (trim s)))"
proof (cases "trim s = []")
  case True
  then show ?thesis by simp
next
  case False
  let ?d = "dropWhile js_space s"
  let ?r = "dropWhile js_space (rev ?d)"
  have r: "?r \<noteq> []" using False by (simp add: trim_def)
  then have a: "\<not> js_space (hd ?r)" by (rule hd_dropWhile)
  have d: "?d \<noteq> []"
  proof
    assume e: "?d = []"
    have "?r = []" unfolding e by simp
    with r show False by simp
  qed
  then have b: "\<not> js_space (hd ?d)" by (rule hd_dropWhile)
  have "last (trim s) = hd ?r" using r by (simp add: trim_def last_rev)
  moreover have "hd (trim s) = hd ?d"
  proof -
    have "prefix (trim s) ?d"
      using suffix_dropWhile [of js_space "rev ?d"] by (simp add: trim_def suffix_to_prefix)
    with False show ?thesis by (auto simp: prefix_def)
  qed
  ultimately show ?thesis using a b by simp
qed


text \<open>
  Claim C7, as the code has it. The normaliser removes every occurrence of the fence
  with the word json and then every fence, and trims: the text it parses contains no
  fence and neither begins nor ends with white space. When \<^verbatim>\<open>JSON.parse\<close> rejects that
  text, normalisation fails with an error of a fixed message (the raw text goes to the
  console only), and the call treats this like a failure of the provider. When
  \<^verbatim>\<open>JSON.parse\<close> accepts it, the parsed value is the response, whatever its shape: it is
  returned and stored.
\<close>

theorem normalize_parses_stripped_text:
  "\<not> sublist fence (clean_text t)
   \<and> (clean_text t = [] \<or> (\<not> js_space (hd (clean_text t)) \<and> \<not> js_space (last (clean_text t))))
   \<and> (JSON_parse E (clean_text t) = None
        \<longrightarrow> normalize E t = Inl (Error ''Invalid response format from news engine.''))
   \<and> (\<forall>v. JSON_parse E (clean_text t) = Some v \<longrightarrow> normalize E t = Inr v)
   \<and> (\<forall>r storage1.
         check_cache E language storage = Missed storage1 \<and> configured (API_KEY E)
         \<and> generateContent E (build_prompt E language previousHighlights) = Inr r
         \<and> text_or_default r = t \<and> JSON_parse E (clean_text t) = None
        \<longrightarrow> fetchNewsUpdates E language previousHighlights storage =
              \<lparr>returned = serve_degraded E storage1, store = storage1,
               events = [CallPrimary (build_prompt E language previousHighlights),
                         ConsoleError ''Failed to parse JSON'',
                         ConsoleError ''News fetch error details:'']\<rparr>)
   \<and> (\<forall>r storage1 v srcs.
         check_cache E language storage = Missed storage1 \<and> configured (API_KEY E)
         \<and> generateContent E (build_prompt E language previousHighlights) = Inr r
         \<and> text_or_default r = t \<and> JSON_parse E (clean_text t) = Some v
         \<and> grounding_sources (candidates r) = Inr srcs
        \<longrightarrow> fetchNewsUpdates E language previousHighlights storage =
              \<lparr>returned = Inr \<lparr>data = v, sources = srcs\<rparr>,
               store = Some (JSON_stringify E
                               (cache_record \<lparr>data = v, sources = srcs\<rparr> (now_at_store E)
                                  language)),
               events = [CallPrimary (build_prompt E language previousHighlights)]\<rparr>)"
proof (intro conjI allI impI)
  show "\<not> sublist fence (clean_text t)"
    by (rule clean_text_no_fence)
  show "clean_text t = [] \<or> (\<not> js_space (hd (clean_text t)) \<and> \<not> js_space (last (clean_text t)))"
    using trim_ends [of "remove_all fence (remove_all fence_json t)"]
    by (simp add: clean_text_def)
qed (auto simp: normalize_def invalid_format_def fetchNewsUpdates_def acquire_primary_def)

theorem normalize_parses_stripped_text_witness:
  "sublist fence primary_text
   \<and> \<not> sublist fence (clean_text primary_text)
   \<and> JSON_parse env_primary (clean_text primary_text) = Some primary_value
   \<and> normalize env_primary primary_text = Inr primary_value
   \<and> JSON_parse env_secondary (clean_text ''I am unable to browse.'') = None
   \<and> normalize env_secondary ''I am unable to browse.''
       = Inl (Error ''Invalid response format from news engine.'')
   \<and> check_cache env_secondary en None = Missed None
   \<and> configured (API_KEY env_secondary)
   \<and> fetchNewsUpdates env_secondary en [] None =
        \<lparr>returned = Inr \<lparr>data = FALLBACK_DATA env_secondary, sources = JArr []\<rparr>,
         store = None,
         events = [CallPrimary (build_prompt env_secondary en []),
                   ConsoleError ''Failed to parse JSON'',
                   ConsoleError ''News fetch error details:'']\<rparr>"
proof -
  have a: "sublist fence primary_text"
    by (simp add: primary_text_def fence_json_def fence_def)
  have b: "JSON_parse env_primary (clean_text primary_text) = Some primary_value"
    by (simp add: env_primary_simps parse_primary_text)
  have c: "JSON_parse env_secondary (clean_text ''I am unable to browse.'') = None"
    by (simp add: env_secondary_simps parse_prose)
  have d: "check_cache env_secondary en None = Missed None"
    "configured (API_KEY env_secondary)"
    "generateContent env_secondary (build_prompt env_secondary en [])
       = Inr \<lparr>response_text = Some ''I am unable to browse.'', candidates = JUndefined\<rparr>"
    "text_or_default \<lparr>response_text = Some ''I am unable to browse.'', candidates = JUndefined\<rparr>
       = ''I am unable to browse.''"
    by (simp_all add: check_cache_empty env_secondary_simps configured_def text_or_default_def)
  note p = normalize_parses_stripped_text [of primary_text env_primary en None "[]"]
  note q = normalize_parses_stripped_text [of "''I am unable to browse.''" env_secondary en None "[]"]
  have e: "\<not> sublist fence (clean_text primary_text)"
    using p by (rule conjunct1)
  have f: "normalize env_primary primary_text = Inr primary_value"
    using p b by blast
  have g: "normalize env_secondary ''I am unable to browse.''
             = Inl (Error ''Invalid response format from news engine.'')"
    using q c by blast
  have h: "fetchNewsUpdates env_secondary en [] None =
        \<lparr>returned = serve_degraded env_secondary None, store = None,
         events = [CallPrimary (build_prompt env_secondary en []),
                   ConsoleError ''Failed to parse JSON'',
                   ConsoleError ''News fetch error details:'']\<rparr>"
    using q c d by blast
  show ?thesis
    using a b c d(1,2) e f g h by (simp add: serve_degraded_def static_fallback_def)
qed

text \<open>
  The claim as the specification states it: a value of another shape than
  \<^verbatim>\<open>NewsResponse\<close> makes normalisation fail, and the error carries the raw text. The text
  \<^verbatim>\<open>{}\<close>, which is also what the service substitutes for a missing text, is accepted,
  returned and stored although it has none of the fields; and two different raw texts
  that do not parse give the same error.
\<close>

theorem normalize_shape_counterexample:
  "normalize env_down ''{}'' = Inr (JObj [])
   \<and> \<not> is_NewsResponse (JObj [])
   \<and> returned (fetchNewsUpdates env_silent en [] None) = Inr \<lparr>data = JObj [], sources = JArr []\<rparr>
   \<and> store (fetchNewsUpdates env_silent en [] None)
       = Some (json_stringify
                 (JObj [(''data'', JObj []), (''sources'', JArr []),
                        (''timestamp'', JNum 1700000000750), (''lang'', JStr ''en'')]))
   \<and> normalize env_down ''oops'' = Inl (Error ''Invalid response format from news engine.'')
   \<and> normalize env_down ''nope'' = normalize env_down ''oops''"
proof -
  have a: "clean_text ''{}'' = ''{}''" "clean_text ''oops'' = ''oops''"
    "clean_text ''nope'' = ''nope''"
    by (simp_all add: clean_text_def trim_def js_space_def fence_def fence_json_def)
  have b: "json_parse ''{}'' = Some (JObj [])" "json_parse ''oops'' = None"
    "json_parse ''nope'' = None"
    by (simp_all add: platform_defs)
  have c: "normalize env_down ''{}'' = Inr (JObj [])"
    "normalize env_down ''oops'' = Inl (Error ''Invalid response format from news engine.'')"
    "normalize env_down ''nope'' = Inl (Error ''Invalid response format from news engine.'')"
    by (simp_all add: normalize_def a b env_down_simps invalid_format_def)
  have d: "\<not> is_NewsResponse (JObj [])"
    by (simp add: is_NewsResponse_def is_string_def lookup_def)
  have env_silent_simps:
    "API_KEY env_silent = Some ''primary-key''" "JSON_stringify env_silent = json_stringify"
    "now_at_store env_silent = 1700000000750"
    by (simp_all add: env_silent_def env_down_simps)
  have e: "acquire_primary env_silent q = (Inr \<lparr>data = JObj [], sources = JArr []\<rparr>, [CallPrimary q])"
    for q
    by (simp add: acquire_primary_def env_silent_def env_down_simps text_or_default_def
          normalize_def a b grounding_sources_def grounding_chunks_def js_opt_def)
  have f: "fetchNewsUpdates env_silent en [] None =
             \<lparr>returned = Inr \<lparr>data = JObj [], sources = JArr []\<rparr>,
              store = Some (json_stringify
                 (JObj [(''data'', JObj []), (''sources'', JArr []),
                        (''timestamp'', JNum 1700000000750), (''lang'', JStr ''en'')])),
              events = [CallPrimary (build_prompt env_silent en [])]\<rparr>"
    by (simp add: fetchNewsUpdates_def check_cache_empty e env_silent_simps
          configured_def cache_record_def lang_str_def del: json_stringify.simps)
  show ?thesis
    using c d f by simp
qed

end
